theory Spec2Isabelle
  imports Main "HOL-Library.Sublist"
begin

section \<open>JavaScript values and strings\<close>

text \<open>
  The loaders work on the untyped tree that the YAML parser returns (\<open>spec: any\<close>).
  A value is one of the JavaScript values such a tree can hold. An object is the list of
  its own properties in enumeration order (\<open>Object.entries\<close>); numbers are opaque
  payloads of which only zero-ness is ever inspected. Strings are sequences of
  characters. A value of this type is a document value with its own properties; what a
  read finds further up the prototype chain of the runtime is described separately
  (\<open>js_read\<close> below).
\<close>

datatype json =
    JUndefined
  | JNull
  | JBool bool
  | JNum int
  | JStr string
  | JArr "json list"
  | JObj "(string \<times> json) list"

datatype js_error = TypeError

type_synonym 'a result = "js_error + 'a"

fun truthy :: "json \<Rightarrow> bool" where
  "truthy JUndefined = False"
| "truthy JNull = False"
| "truthy (JBool b) = b"
| "truthy (JNum n) = (n \<noteq> 0)"
| "truthy (JStr s) = (s \<noteq> [])"
| "truthy (JArr xs) = True"
| "truthy (JObj fs) = True"

text \<open>\<open>typeof v === 'object'\<close>: objects, arrays and \<open>null\<close>.\<close>

fun typeof_object :: "json \<Rightarrow> bool" where
  "typeof_object (JObj fs) = True"
| "typeof_object (JArr xs) = True"
| "typeof_object JNull = True"
| "typeof_object v = False"

definition digit_chars :: string where
  "digit_chars = ''0123456789''"

definition digit_value :: "char \<Rightarrow> nat option" where
  "digit_value c = map_of (zip digit_chars [0, 1, 2, 3, 4, 5, 6, 7, 8, 9]) c"

definition is_digit :: "char \<Rightarrow> bool" where
  "is_digit c = (c \<in> set digit_chars)"

text \<open>The number a string of decimal digits denotes (\<open>parseInt\<close> on digits).\<close>

fun digits_value :: "nat \<Rightarrow> string \<Rightarrow> nat" where
  "digits_value acc [] = acc"
| "digits_value acc (c # cs) =
     digits_value (10 * acc + (case digit_value c of Some d \<Rightarrow> d | None \<Rightarrow> 0)) cs"

text \<open>
  An array index in canonical form: decimal digits without a leading zero
  (\<open>'0'\<close>, \<open>'7'\<close>, \<open>'12'\<close>, but not \<open>'01'\<close> and not \<open>''\<close>).
\<close>

definition array_index :: "string \<Rightarrow> nat option" where
  "array_index k =
     (if k = [] \<or> \<not> list_all is_digit k then None
      else if hd k = CHR ''0'' \<and> tl k \<noteq> [] then None
      else Some (digits_value 0 k))"

text \<open>
  Property read \<open>v.k\<close> for a key that is written in the source: \<open>example\<close>, \<open>$ref\<close>,
  \<open>type\<close>, \<open>format\<close>, \<open>enum\<close>, \<open>default\<close>, \<open>items\<close>, \<open>properties\<close>, \<open>info\<close>, \<open>paths\<close>,
  \<open>title\<close>, \<open>description\<close>, \<open>version\<close>, \<open>x-version-status\<close>, \<open>openapi\<close>, \<open>operationId\<close>,
  \<open>summary\<close>, \<open>tags\<close>, the seven method names and the index \<open>0\<close>. It gives an own
  property of an object, an element or the length of an array, a character or the
  length of a string, and \<open>undefined\<close> otherwise. JavaScript continues a read along the
  prototype chain, but no built-in prototype (of objects, arrays, strings, numbers,
  booleans or functions) has a property of one of these names, so these reads end at
  the own properties. A read whose key comes from the document is \<open>js_read\<close>.
  (On \<open>null\<close> and \<open>undefined\<close> a plain read raises; every read of the source is behind a
  truthiness test or uses \<open>?.\<close>, so that case never arises.)
\<close>

fun get :: "json \<Rightarrow> string \<Rightarrow> json" where
  "get (JObj fs) k = (case map_of fs k of Some v \<Rightarrow> v | None \<Rightarrow> JUndefined)"
| "get (JArr xs) k =
     (if k = ''length'' then JNum (int (length xs))
      else case array_index k of
        Some i \<Rightarrow> (if i < length xs then xs ! i else JUndefined)
      | None \<Rightarrow> JUndefined)"
| "get (JStr s) k =
     (if k = ''length'' then JNum (int (length s))
      else case array_index k of
        Some i \<Rightarrow> (if i < length s then JStr [s ! i] else JUndefined)
      | None \<Rightarrow> JUndefined)"
| "get v k = JUndefined"

text \<open>\<open>k in v\<close> for an object or array \<open>v\<close>; the operator raises on a primitive.\<close>

fun has_property :: "string \<Rightarrow> json \<Rightarrow> bool result" where
  "has_property k (JObj fs) = Inr (k \<in> fst ` set fs)"
| "has_property k (JArr xs) =
     Inr (k = ''length'' \<or> (case array_index k of Some i \<Rightarrow> i < length xs | None \<Rightarrow> False))"
| "has_property k v = Inl TypeError"

text \<open>Decimal numerals, for the keys \<open>Object.entries\<close> gives the elements of an array.\<close>

function show_nat :: "nat \<Rightarrow> string" where
  "show_nat n =
     (if n < 10 then [digit_chars ! n] else show_nat (n div 10) @ [digit_chars ! (n mod 10)])"
  by pat_completeness auto
termination
  by (relation "measure id") auto

text \<open>
  \<open>Object.entries(v)\<close> for a truthy value: the own enumerable properties, in order.
  Numbers and booleans have none.
\<close>

fun entries :: "json \<Rightarrow> (string \<times> json) list" where
  "entries (JObj fs) = fs"
| "entries (JArr xs) = map (\<lambda>i. (show_nat i, xs ! i)) [0 ..< length xs]"
| "entries (JStr s) = map (\<lambda>i. (show_nat i, JStr [s ! i])) [0 ..< length s]"
| "entries v = []"

text \<open>
  The assignment \<open>o[k] = v\<close> on an object the code has built from \<open>{}\<close>. Writing an own
  property keeps the place of an existing key and puts a new one last. The key
  \<open>__proto__\<close> is not written as an own property: the assignment runs the setter that
  \<open>Object.prototype\<close> has under this name, which changes the prototype of \<open>o\<close> (when \<open>v\<close>
  is an object or \<open>null\<close>) or does nothing, and leaves the own properties as they are.
\<close>

fun put_own :: "(string \<times> json) list \<Rightarrow> string \<Rightarrow> json \<Rightarrow> (string \<times> json) list" where
  "put_own [] k v = [(k, v)]"
| "put_own ((k', v') # fs) k v = (if k' = k then (k, v) # fs else (k', v') # put_own fs k v)"

definition set_prop :: "(string \<times> json) list \<Rightarrow> string \<Rightarrow> json \<Rightarrow> (string \<times> json) list" where
  "set_prop fs k v = (if k = ''__proto__'' then fs else put_own fs k v)"

text \<open>
  Reads with a key taken from the document go through the prototype chain of the
  runtime, which is not part of the repository. A value met on such a read is a document
  value or a built-in object of the runtime (a function such as \<open>Object\<close>, or a
  prototype object), named by a string. The chain is a parameter: for a value and a key
  that is not an own property of the value, it gives what the read finds further up the
  chain, \<open>undefined\<close> when there is nothing, or the exception an accessor raises. Every
  read on a built-in object is the runtime's.
\<close>

datatype jsval = Doc json | Host string

type_synonym prototype_chain = "jsval \<Rightarrow> string \<Rightarrow> jsval result"

fun truthy_val :: "jsval \<Rightarrow> bool" where
  "truthy_val (Doc v) = truthy v"
| "truthy_val (Host h) = True"

fun own_property :: "json \<Rightarrow> string \<Rightarrow> bool" where
  "own_property (JObj fs) k = (k \<in> fst ` set fs)"
| "own_property (JArr xs) k =
     (k = ''length'' \<or> (case array_index k of Some i \<Rightarrow> i < length xs | None \<Rightarrow> False))"
| "own_property (JStr s) k =
     (k = ''length'' \<or> (case array_index k of Some i \<Rightarrow> i < length s | None \<Rightarrow> False))"
| "own_property v k = False"

text \<open>
  The read \<open>v?.[k]\<close>: \<open>undefined\<close> on \<open>undefined\<close> and \<open>null\<close>, an own property when there
  is one, the prototype chain otherwise.
\<close>

fun js_read :: "prototype_chain \<Rightarrow> jsval \<Rightarrow> string \<Rightarrow> jsval result" where
  "js_read pc (Doc JUndefined) k = Inr (Doc JUndefined)"
| "js_read pc (Doc JNull) k = Inr (Doc JUndefined)"
| "js_read pc (Doc v) k = (if own_property v k then Inr (Doc (get v k)) else pc (Doc v) k)"
| "js_read pc (Host h) k = pc (Host h) k"

subsection \<open>String operations\<close>

definition startsWith :: "string \<Rightarrow> string \<Rightarrow> bool" where
  "startsWith s p = prefix p s"

definition endsWith :: "string \<Rightarrow> string \<Rightarrow> bool" where
  "endsWith s p = prefix (rev p) (rev s)"

text \<open>\<open>s.includes(p)\<close>: \<open>p\<close> occurs in \<open>s\<close> as a contiguous substring.\<close>

fun str_includes :: "string \<Rightarrow> string \<Rightarrow> bool" where
  "str_includes [] p = (p = [])"
| "str_includes (c # cs) p = (prefix p (c # cs) \<or> str_includes cs p)"

text \<open>\<open>s.split(c)\<close> for a one-character separator; \<open>''.split(c)\<close> is \<open>['']\<close>.\<close>

fun split_on :: "char \<Rightarrow> string \<Rightarrow> string list" where
  "split_on c [] = [[]]"
| "split_on c (x # xs) =
     (if x = c then [] # split_on c xs
      else (case split_on c xs of s # ss \<Rightarrow> (x # s) # ss | [] \<Rightarrow> [[x]]))"

text \<open>\<open>xs.join(sep)\<close>.\<close>

fun join :: "string \<Rightarrow> string list \<Rightarrow> string" where
  "join sep [] = []"
| "join sep [s] = s"
| "join sep (s # t # ss) = s @ sep @ join sep (t # ss)"

text \<open>\<open>s.replace(pat, rep)\<close> with a string pattern: the first occurrence only.\<close>

fun replace_first :: "string \<Rightarrow> string \<Rightarrow> string \<Rightarrow> string" where
  "replace_first pat rep [] = (if pat = [] then rep else [])"
| "replace_first pat rep (c # cs) =
     (if prefix pat (c # cs) then rep @ drop (length pat) (c # cs)
      else c # replace_first pat rep cs)"

text \<open>
  \<open>toUpperCase\<close> and \<open>toLowerCase\<close> on the ASCII letters, which is all the method names
  and the directory names of the samples need; other characters are left as they are.
\<close>

definition lower_chars :: string where
  "lower_chars = ''abcdefghijklmnopqrstuvwxyz''"

definition upper_chars :: string where
  "upper_chars = ''ABCDEFGHIJKLMNOPQRSTUVWXYZ''"

definition to_upper_char :: "char \<Rightarrow> char" where
  "to_upper_char c = (case map_of (zip lower_chars upper_chars) c of Some u \<Rightarrow> u | None \<Rightarrow> c)"

definition to_lower_char :: "char \<Rightarrow> char" where
  "to_lower_char c = (case map_of (zip upper_chars lower_chars) c of Some l \<Rightarrow> l | None \<Rightarrow> c)"

definition toUpperCase :: "string \<Rightarrow> string" where
  "toUpperCase s = map to_upper_char s"

definition toLowerCase :: "string \<Rightarrow> string" where
  "toLowerCase s = map to_lower_char s"

text \<open>The character class \<open>[a-zA-Z0-9]\<close>.\<close>

definition is_alnum :: "char \<Rightarrow> bool" where
  "is_alnum c = (c \<in> set (lower_chars @ upper_chars @ digit_chars))"

section \<open>Operation ids (dynamic-openapi.ts, generateOperationId)\<close>

text \<open>
  The four \<open>replace\<close> calls of \<open>generateOperationId\<close>, one definition each:
  \<open>/[{}]/g\<close> to nothing, \<open>/[^a-zA-Z0-9]/g\<close> to an underscore, \<open>/_+/g\<close> to one
  underscore, and \<open>/^_|_$/g\<close> to nothing (one underscore at the start and one at the
  end, which for the one-character string \<open>_\<close> are the same character).
\<close>

definition remove_braces :: "string \<Rightarrow> string" where
  "remove_braces s = filter (\<lambda>c. c \<noteq> CHR ''{'' \<and> c \<noteq> CHR ''}'') s"

definition underscore_non_alnum :: "string \<Rightarrow> string" where
  "underscore_non_alnum s = map (\<lambda>c. if is_alnum c then c else CHR ''_'') s"

fun collapse_underscores :: "string \<Rightarrow> string" where
  "collapse_underscores (c # d # cs) =
     (if c = CHR ''_'' \<and> d = CHR ''_'' then collapse_underscores (d # cs)
      else c # collapse_underscores (d # cs))"
| "collapse_underscores cs = cs"

definition strip_edge_underscores :: "string \<Rightarrow> string" where
  "strip_edge_underscores s =
     (let s1 = (case s of [] \<Rightarrow> [] | c # cs \<Rightarrow> if c = CHR ''_'' then cs else s)
      in if s1 \<noteq> [] \<and> last s1 = CHR ''_'' then butlast s1 else s1)"

definition generateOperationId :: "string \<Rightarrow> string \<Rightarrow> string" where
  "generateOperationId method path =
     method @ ''_'' @
       strip_edge_underscores (collapse_underscores (underscore_non_alnum (remove_braces path)))"

text \<open>
  The specification's wording of the same, for comparison, written without the
  definitions above: \<open>sanitize\<close> replaces \<open>{\<close> and \<open>}\<close> with the empty string, any run of
  non-alphanumeric characters with a single underscore, and strips leading and trailing
  underscores.
\<close>

fun drop_braces :: "string \<Rightarrow> string" where
  "drop_braces [] = []"
| "drop_braces (c # cs) =
     (if c = CHR ''{'' \<or> c = CHR ''}'' then drop_braces cs else c # drop_braces cs)"

function squash_runs :: "string \<Rightarrow> string" where
  "squash_runs [] = []"
| "squash_runs (c # cs) =
     (if is_alnum c then c # squash_runs cs
      else CHR ''_'' # squash_runs (dropWhile (\<lambda>d. \<not> is_alnum d) cs))"
  by pat_completeness auto
termination
  by (relation "measure length") (auto simp: length_dropWhile_le less_Suc_eq_le)

definition strip_underscores :: "string \<Rightarrow> string" where
  "strip_underscores s =
     rev (dropWhile (\<lambda>c. c = CHR ''_'') (rev (dropWhile (\<lambda>c. c = CHR ''_'') s)))"

definition sanitize_spec :: "string \<Rightarrow> string" where
  "sanitize_spec path = strip_underscores (squash_runs (drop_braces path))"

section \<open>Example values (dynamic-openapi.ts, generateExampleFromSchema)\<close>

text \<open>
  \<open>schema.$ref.replace('#/', '').split('/')\<close>, and the loop over its parts:
  \<open>resolvedSchema = resolvedSchema?.[part]; if (!resolvedSchema) return null\<close>. The parts
  come from the document, so each read goes through the prototype chain and may raise.
  \<open>Inr None\<close> is the early return of \<open>null\<close>.
\<close>

definition ref_path :: "string \<Rightarrow> string list" where
  "ref_path r = split_on CHR ''/'' (replace_first ''#/'' [] r)"

fun walk_ref :: "prototype_chain \<Rightarrow> jsval \<Rightarrow> string list \<Rightarrow> jsval option result" where
  "walk_ref pc cur [] = Inr (Some cur)"
| "walk_ref pc cur (part # parts) =
     (case js_read pc cur part of
        Inl err \<Rightarrow> Inl err
      | Inr v \<Rightarrow> if \<not> truthy_val v then Inr None else walk_ref pc v parts)"

text \<open>
  The \<open>forEach\<close> that fills \<open>example\<close> from the generated property examples, in
  order; it stops at the first one that raises or does not return.
\<close>

fun build_example ::
  "(string \<times> json result option) list \<Rightarrow> (string \<times> json) list
    \<Rightarrow> (string \<times> json) list result option" where
  "build_example [] acc = Some (Inr acc)"
| "build_example ((k, r) # rest) acc =
     (case r of
        None \<Rightarrow> None
      | Some (Inl e) \<Rightarrow> Some (Inl e)
      | Some (Inr v) \<Rightarrow> build_example rest (set_prop acc k v))"

text \<open>
  The generator recurses through \<open>$ref\<close> pointers with no guard against cycles, so it
  need not return: the second argument bounds the depth of calls, and \<open>None\<close> says the
  bound was reached. \<open>Some (Inl TypeError)\<close> is a raised exception:
  \<open>schema.$ref.replace\<close> on a \<open>$ref\<close> that is not a string, or an accessor of the
  prototype chain met on the walk. When the walk ends on a built-in object of the
  runtime, the recursive call has a schema that is truthy and has none of the keys the
  generator reads, and returns \<open>null\<close>.
\<close>

fun generateExampleFromSchema ::
  "prototype_chain \<Rightarrow> nat \<Rightarrow> json \<Rightarrow> json \<Rightarrow> json result option" where
  "generateExampleFromSchema pc 0 schema spec = None"
| "generateExampleFromSchema pc (Suc fuel) schema spec =
     (if \<not> truthy schema then Some (Inr JNull)
      else if get schema ''example'' \<noteq> JUndefined then Some (Inr (get schema ''example''))
      else if truthy (get schema ''$ref'') then
        (case get schema ''$ref'' of
           JStr r \<Rightarrow>
             (case walk_ref pc (Doc spec) (ref_path r) of
                Inl err \<Rightarrow> Some (Inl err)
              | Inr None \<Rightarrow> Some (Inr JNull)
              | Inr (Some (Doc resolvedSchema)) \<Rightarrow>
                  generateExampleFromSchema pc fuel resolvedSchema spec
              | Inr (Some (Host h)) \<Rightarrow> (if fuel = 0 then None else Some (Inr JNull)))
         | _ \<Rightarrow> Some (Inl TypeError))
      else
        (case get schema ''type'' of
           JStr t \<Rightarrow>
             if t = ''string'' then
               (if get schema ''format'' = JStr ''email'' then Some (Inr (JStr ''user@example.com''))
                else if get schema ''format'' = JStr ''date-time''
                  then Some (Inr (JStr ''2024-01-01T00:00:00Z''))
                else if get schema ''format'' = JStr ''date'' then Some (Inr (JStr ''2024-01-01''))
                else if truthy (get schema ''enum'') then Some (Inr (get (get schema ''enum'') ''0''))
                else Some (Inr (JStr ''string'')))
             else if t = ''number'' \<or> t = ''integer'' then
               Some (Inr (if get schema ''default'' \<noteq> JUndefined then get schema ''default''
                          else JNum 0))
             else if t = ''boolean'' then
               Some (Inr (if get schema ''default'' \<noteq> JUndefined then get schema ''default''
                          else JBool False))
             else if t = ''array'' then
               (if truthy (get schema ''items'') then
                  (case generateExampleFromSchema pc fuel (get schema ''items'') spec of
                     None \<Rightarrow> None
                   | Some (Inl e) \<Rightarrow> Some (Inl e)
                   | Some (Inr v) \<Rightarrow> Some (Inr (JArr [v])))
                else Some (Inr (JArr [])))
             else if t = ''object'' then
               (if truthy (get schema ''properties'') then
                  (case build_example
                          (map (\<lambda>kv. (fst kv, generateExampleFromSchema pc fuel (snd kv) spec))
                             (entries (get schema ''properties''))) [] of
                     None \<Rightarrow> None
                   | Some (Inl e) \<Rightarrow> Some (Inl e)
                   | Some (Inr example) \<Rightarrow> Some (Inr (JObj example)))
                else Some (Inr (JObj [])))
             else Some (Inr JNull)
         | _ \<Rightarrow> Some (Inr JNull)))"

section \<open>Operations of a document (dynamic-openapi.ts, extractOperationsFromSpec)\<close>

text \<open>
  The interface \<open>DynamicApiOperation\<close>. Fields whose value is copied from the document
  hold whatever value the document has there.
\<close>

record DynamicApiOperation =
  operationId :: json
  op_method :: string
  op_path :: string
  op_summary :: json
  op_description :: json
  op_tags :: json
  markdownContent :: string

text \<open>
  What the loaders take from outside. \<open>yaml_parse\<close> is \<open>parse\<close> of the \<open>yaml\<close> package
  (\<open>None\<close> when it raises). \<open>render_markdown\<close> is \<open>generateOperationMarkdown\<close>, which
  only assembles HTML text for display and may raise on a malformed operation;
  \<open>sort_operations\<close> is \<open>Array.prototype.sort\<close> under
  \<open>a.summary.localeCompare(b.summary)\<close>, whose order depends on the locale and which
  raises when a summary is not a string. The two glob fields are the results of the two
  \<open>import.meta.glob\<close> calls, pairs of path and raw text in enumeration order
  (\<open>None\<close> when the import raises).
\<close>

record env =
  yaml_parse :: "string \<Rightarrow> json option"
  render_markdown :: "json \<Rightarrow> string \<Rightarrow> string \<Rightarrow> json \<Rightarrow> string result"
  sort_operations :: "DynamicApiOperation list \<Rightarrow> DynamicApiOperation list result"
  versioned_glob :: "(string \<times> string) list option"
  legacy_glob :: "(string \<times> string) list option"

definition http_methods :: "string list" where
  "http_methods = [''get'', ''post'', ''put'', ''delete'', ''patch'', ''options'', ''head'']"

text \<open>\<open>operation.operationId || generateOperationId(method, path)\<close>.\<close>

definition operation_id_of :: "string \<Rightarrow> string \<Rightarrow> json \<Rightarrow> json" where
  "operation_id_of method path operation =
     (if truthy (get operation ''operationId'') then get operation ''operationId''
      else JStr (generateOperationId method path))"

text \<open>The object pushed for one method of one path item.\<close>

definition push_operation ::
  "env \<Rightarrow> json \<Rightarrow> string \<Rightarrow> string \<Rightarrow> json \<Rightarrow> DynamicApiOperation result" where
  "push_operation e spec path method operation =
     (case render_markdown e operation method path spec of
        Inl err \<Rightarrow> Inl err
      | Inr html \<Rightarrow>
          Inr \<lparr> operationId = operation_id_of method path operation,
                op_method = toUpperCase method,
                op_path = path,
                op_summary = (if truthy (get operation ''summary'') then get operation ''summary''
                              else JStr (toUpperCase method @ '' '' @ path)),
                op_description = get operation ''description'',
                op_tags = (if truthy (get operation ''tags'') then get operation ''tags''
                           else JArr []),
                markdownContent = html \<rparr>)"

text \<open>
  The method objects the two nested \<open>forEach\<close> loops reach, in order: for every entry
  of \<open>spec.paths\<close> whose value is a truthy object, every method of the fixed list whose
  value on the path item is a truthy object.
\<close>

definition path_item_operations :: "string \<times> json \<Rightarrow> (string \<times> string \<times> json) list" where
  "path_item_operations entry =
     (if \<not> truthy (snd entry) \<or> \<not> typeof_object (snd entry) then []
      else map (\<lambda>m. (fst entry, m, get (snd entry) m))
             (filter (\<lambda>m. truthy (get (snd entry) m) \<and> typeof_object (get (snd entry) m))
                http_methods))"

definition declared_operations :: "json \<Rightarrow> (string \<times> string \<times> json) list" where
  "declared_operations spec = concat (map path_item_operations (entries (get spec ''paths'')))"

fun collect_results :: "'a result list \<Rightarrow> 'a list result" where
  "collect_results [] = Inr []"
| "collect_results (Inl err # rs) = Inl err"
| "collect_results (Inr x # rs) =
     (case collect_results rs of Inl err \<Rightarrow> Inl err | Inr xs \<Rightarrow> Inr (x # xs))"

definition pushed_operations :: "env \<Rightarrow> json \<Rightarrow> DynamicApiOperation list result" where
  "pushed_operations e spec =
     collect_results
       (map (\<lambda>(p, m, operation). push_operation e spec p m operation) (declared_operations spec))"

definition extractOperationsFromSpec :: "env \<Rightarrow> json \<Rightarrow> DynamicApiOperation list result" where
  "extractOperationsFromSpec e spec =
     (if \<not> truthy (get spec ''paths'') then Inr []
      else (case pushed_operations e spec of
              Inl err \<Rightarrow> Inl err
            | Inr ops \<Rightarrow> sort_operations e ops))"

section \<open>The versioned loader and its cache (dynamic-openapi.ts)\<close>

text \<open>
  The interface \<open>DynamicApiSpec\<close> and the module variable \<open>apiSpecCache\<close>: one cache
  slot for the whole module (\<open>null\<close> is \<open>None\<close>).
\<close>

record DynamicApiSpec =
  spec_id :: string
  spec_fileName :: string
  spec_title :: json
  spec_description :: json
  spec_version :: json
  spec_serviceName :: string
  spec_operations :: "DynamicApiOperation list"
  spec_document :: json
  spec_language :: string

record ApiSpecCache =
  cached_specs :: "DynamicApiSpec list"
  lastUpdated :: int

definition CACHE_DURATION :: int where
  "CACHE_DURATION = 5 * 60 * 1000"

text \<open>
  \<open>filePath.match(/\/apispecs\/([^\/]+)\/([^\/]+)\/([^\/]+)$/)\<close>: the path ends in
  \<open>/apispecs/\<close> followed by exactly three non-empty segments.
\<close>

definition match_versioned_path :: "string \<Rightarrow> (string \<times> string \<times> string) option" where
  "match_versioned_path filePath =
     (case rev (split_on CHR ''/'' filePath) of
        fileName # versionDir # serviceName # a # before # rest \<Rightarrow>
          if a = ''apispecs'' \<and> fileName \<noteq> [] \<and> versionDir \<noteq> [] \<and> serviceName \<noteq> []
          then Some (serviceName, versionDir, fileName) else None
      | _ \<Rightarrow> None)"

definition capitalize :: "string \<Rightarrow> string" where
  "capitalize w = (case w of [] \<Rightarrow> [] | c # cs \<Rightarrow> to_upper_char c # cs)"

definition formatServiceName :: "string \<Rightarrow> string" where
  "formatServiceName specId =
     (let s = join '' '' (map capitalize (split_on CHR ''-'' specId))
      in if endsWith s ''Api'' then take (length s - 3) s @ ''API'' else s)"

text \<open>
  The body of the loop over the versioned files; \<open>None\<close> is a file that is skipped
  (\<open>continue\<close>, or an exception caught by the loop's own \<open>try\<close>).
\<close>

definition load_versioned_file :: "env \<Rightarrow> string \<Rightarrow> string \<times> string \<Rightarrow> DynamicApiSpec option" where
  "load_versioned_file e language file =
     (case match_versioned_path (fst file) of
        None \<Rightarrow> None
      | Some (serviceName, versionDir, fileName) \<Rightarrow>
          (case yaml_parse e (snd file) of
             None \<Rightarrow> None
           | Some spec \<Rightarrow>
               if \<not> truthy spec \<or> \<not> truthy (get spec ''info'') then None
               else
                 (case extractOperationsFromSpec e spec of
                    Inl err \<Rightarrow> None
                  | Inr ops \<Rightarrow>
                      Some \<lparr> spec_id = serviceName,
                             spec_fileName = fileName,
                             spec_title =
                               (if truthy (get (get spec ''info'') ''title'')
                                then get (get spec ''info'') ''title''
                                else JStr (formatServiceName serviceName)),
                             spec_description = get (get spec ''info'') ''description'',
                             spec_version =
                               (if truthy (get (get spec ''info'') ''version'')
                                then get (get spec ''info'') ''version''
                                else JStr versionDir),
                             spec_serviceName = formatServiceName serviceName,
                             spec_operations = ops,
                             spec_document = spec,
                             spec_language = language \<rparr>)))"

definition strip_yaml_extension :: "string \<Rightarrow> string" where
  "strip_yaml_extension f =
     (if endsWith f ''.yaml'' then take (length f - 5) f
      else if endsWith f ''.yml'' then take (length f - 4) f
      else f)"

definition load_legacy_file :: "env \<Rightarrow> string \<Rightarrow> string \<times> string \<Rightarrow> DynamicApiSpec option" where
  "load_legacy_file e language file =
     (let fileName = last (split_on CHR ''/'' (fst file));
          specId = strip_yaml_extension fileName
      in case yaml_parse e (snd file) of
           None \<Rightarrow> None
         | Some spec \<Rightarrow>
             if \<not> truthy spec \<or> \<not> truthy (get spec ''info'') then None
             else
               (case extractOperationsFromSpec e spec of
                  Inl err \<Rightarrow> None
                | Inr ops \<Rightarrow>
                    Some \<lparr> spec_id = specId,
                           spec_fileName = fileName,
                           spec_title =
                             (if truthy (get (get spec ''info'') ''title'')
                              then get (get spec ''info'') ''title''
                              else JStr specId),
                           spec_description = get (get spec ''info'') ''description'',
                           spec_version =
                             (if truthy (get (get spec ''info'') ''version'')
                              then get (get spec ''info'') ''version''
                              else JStr ''1.0.0''),
                           spec_serviceName = formatServiceName specId,
                           spec_operations = ops,
                           spec_document = spec,
                           spec_language = language \<rparr>))"

definition loadLegacyApiSpecs :: "env \<Rightarrow> string \<Rightarrow> DynamicApiSpec list" where
  "loadLegacyApiSpecs e language =
     (case legacy_glob e of
        None \<Rightarrow> []
      | Some files \<Rightarrow>
          List.map_filter (load_legacy_file e language)
            (filter (\<lambda>f. str_includes (fst f) (''/docs/'' @ language @ ''/apispecs/'')) files))"

text \<open>
  The filter on a cache hit:
  \<open>spec.language === language && spec.version.startsWith(version)\<close>. A version that is
  not a string has no \<open>startsWith\<close>; the call raises and the whole filter with it.
\<close>

fun cache_filter :: "string \<Rightarrow> string \<Rightarrow> DynamicApiSpec list \<Rightarrow> DynamicApiSpec list result" where
  "cache_filter language version [] = Inr []"
| "cache_filter language version (s # ss) =
     (if spec_language s \<noteq> language then cache_filter language version ss
      else
        (case spec_version s of
           JStr v \<Rightarrow>
             (case cache_filter language version ss of
                Inl err \<Rightarrow> Inl err
              | Inr r \<Rightarrow> Inr (if startsWith v version then s # r else r))
         | _ \<Rightarrow> Inl TypeError))"

definition versioned_files_for :: "env \<Rightarrow> string \<Rightarrow> string \<Rightarrow> (string \<times> string) list option" where
  "versioned_files_for e language version =
     map_option
       (filter (\<lambda>f. str_includes (fst f) (''/docs/'' @ language @ ''/apispecs/'')
                   \<and> str_includes (fst f) (''/'' @ version @ ''/'')))
       (versioned_glob e)"

text \<open>
  The cache test \<open>apiSpecCache && Date.now() - apiSpecCache.lastUpdated < CACHE_DURATION\<close>:
  the cache when the test holds. The key computed from language and version just before
  the test is used nowhere.
\<close>

definition fresh_cache :: "int \<Rightarrow> ApiSpecCache option \<Rightarrow> ApiSpecCache option" where
  "fresh_cache now cache =
     (case cache of
        None \<Rightarrow> None
      | Some c \<Rightarrow> if now - lastUpdated c < CACHE_DURATION then Some c else None)"

text \<open>
  \<open>loadAllApiSpecs\<close>. The two numbers are the two readings of \<open>Date.now()\<close>, at the
  cache test and at the cache update. The result is the returned list and the cache
  afterwards. An exception on the hit path is caught by the outer \<open>try\<close>, which returns
  the empty list. The fallback to the legacy layout is the \<open>catch\<close> around the glob
  import and the loop.
\<close>

definition loadAllApiSpecs ::
  "env \<Rightarrow> int \<Rightarrow> int \<Rightarrow> ApiSpecCache option \<Rightarrow> string \<Rightarrow> string
    \<Rightarrow> DynamicApiSpec list \<times> ApiSpecCache option" where
  "loadAllApiSpecs e now now_update cache language version =
     (case fresh_cache now cache of
        Some c \<Rightarrow>
          (case cache_filter language version (cached_specs c) of
             Inl err \<Rightarrow> ([], cache)
           | Inr r \<Rightarrow> (r, cache))
      | None \<Rightarrow>
          (case versioned_files_for e language version of
             None \<Rightarrow> (loadLegacyApiSpecs e language, cache)
           | Some languageVersionFiles \<Rightarrow>
               (let specs = List.map_filter (load_versioned_file e language) languageVersionFiles
                in (specs, Some \<lparr> cached_specs = specs, lastUpdated = now_update \<rparr>))))"

definition clearApiSpecCache :: "ApiSpecCache option \<Rightarrow> ApiSpecCache option" where
  "clearApiSpecCache cache = None"

definition getApiSpecById ::
  "env \<Rightarrow> int \<Rightarrow> int \<Rightarrow> ApiSpecCache option \<Rightarrow> string \<Rightarrow> string \<Rightarrow> string
    \<Rightarrow> DynamicApiSpec option \<times> ApiSpecCache option" where
  "getApiSpecById e now now_update cache specId language version =
     (let r = loadAllApiSpecs e now now_update cache language version
      in (find (\<lambda>s. spec_id s = specId) (fst r), snd r))"

text \<open>\<open>getApiOperation\<close> has no version parameter: \<open>getApiSpecById\<close> runs with its default.\<close>

definition getApiOperation ::
  "env \<Rightarrow> int \<Rightarrow> int \<Rightarrow> ApiSpecCache option \<Rightarrow> string \<Rightarrow> string \<Rightarrow> string
    \<Rightarrow> DynamicApiOperation option \<times> ApiSpecCache option" where
  "getApiOperation e now now_update cache specId opId language =
     (let r = getApiSpecById e now now_update cache specId language ''v3''
      in case fst r of
           None \<Rightarrow> (None, snd r)
         | Some s \<Rightarrow> (find (\<lambda>operation. operationId operation = JStr opId) (spec_operations s), snd r))"

section \<open>Version listing (api-versions.ts)\<close>

record ApiVersionInfo =
  v_version :: string
  v_label :: string
  v_badge :: json
  v_description :: json
  specExists :: bool

text \<open>
  \<open>filePath.match(/\/apispecs\/[^\/]+\/([^\/]+)\//)\<close>: the leftmost \<open>/apispecs/\<close> that
  is followed by two non-empty segments and a further slash; the second segment is the
  version. The first segment of the path has no slash before it and cannot be the
  \<open>apispecs\<close> of a match.
\<close>

fun find_version_dir :: "string list \<Rightarrow> string option" where
  "find_version_dir (a # s # v # nxt # rest) =
     (if a = ''apispecs'' \<and> s \<noteq> [] \<and> v \<noteq> [] then Some v
      else find_version_dir (s # v # nxt # rest))"
| "find_version_dir segs = None"

definition match_version_dir :: "string \<Rightarrow> string option" where
  "match_version_dir filePath = find_version_dir (tl (split_on CHR ''/'' filePath))"

text \<open>\<open>version.match(/^v\d+$/)\<close>.\<close>

definition is_version_name :: "string \<Rightarrow> bool" where
  "is_version_name version =
     (case version of
        [] \<Rightarrow> False
      | c # ds \<Rightarrow> c = CHR ''v'' \<and> ds \<noteq> [] \<and> list_all is_digit ds)"

text \<open>
  \<open>parseInt(a.substring(1))\<close> on a version name is a JavaScript number: the double
  nearest to the integer the digits denote, ties going to the even one. \<open>to_double\<close>
  gives that double as an integer; \<open>2 ^ 1024\<close> stands for \<open>Infinity\<close>. (For more than
  twenty digits ECMAScript lets an implementation read the digits after the twentieth
  as zeros; the model rounds the exact integer.) The comparator's difference of two
  such numbers is negative, zero or positive as the numbers compare, and the \<open>NaN\<close> of
  \<open>Infinity - Infinity\<close> counts as zero.
\<close>

function bit_length :: "nat \<Rightarrow> nat" where
  "bit_length n = (if n = 0 then 0 else Suc (bit_length (n div 2)))"
  by pat_completeness auto
termination
  by (relation "measure id") auto

definition to_double :: "nat \<Rightarrow> nat" where
  "to_double n =
     (if n < 9007199254740992 then n
      else
        (let e = bit_length n - 53;
             q = n div 2 ^ e;
             r = n mod 2 ^ e;
             m = (if 2 ^ (e - 1) < r \<or> (r = 2 ^ (e - 1) \<and> odd q) then q + 1 else q)
         in min (m * 2 ^ e) (2 ^ 1024)))"

definition version_number :: "string \<Rightarrow> nat" where
  "version_number version = to_double (digits_value 0 (tl version))"

text \<open>
  \<open>v.includes(s)\<close> as a method call on a document value: substring on a string,
  membership on an array, and a \<open>TypeError\<close> on a value with no such method.
\<close>

fun js_includes :: "json \<Rightarrow> string \<Rightarrow> bool result" where
  "js_includes (JStr t) s = Inr (str_includes t s)"
| "js_includes (JArr xs) s = Inr (JStr s \<in> set xs)"
| "js_includes v s = Inl TypeError"

text \<open>The badge a document declares: \<open>x-version-status\<close>, else Beta or Alpha.\<close>

definition declared_badge :: "json \<Rightarrow> json result" where
  "declared_badge info =
     (if truthy (get info ''x-version-status'') then Inr (get info ''x-version-status'')
      else if truthy (get info ''version'') then
        (case js_includes (get info ''version'') ''beta'' of
           Inl err \<Rightarrow> Inl err
         | Inr True \<Rightarrow> Inr (JStr ''Beta'')
         | Inr False \<Rightarrow>
             (case js_includes (get info ''version'') ''alpha'' of
                Inl err \<Rightarrow> Inl err
              | Inr True \<Rightarrow> Inr (JStr ''Alpha'')
              | Inr False \<Rightarrow> Inr JUndefined))
      else Inr JUndefined)"

text \<open>\<open>Set.prototype.add\<close> on a set kept in insertion order.\<close>

definition set_add :: "'a \<Rightarrow> 'a list \<Rightarrow> 'a list" where
  "set_add x xs = (if x \<in> set xs then xs else xs @ [x])"

text \<open>
  One round of the loop over the files of a service: the state is \<open>versionSet\<close> and
  \<open>versions\<close>. When reading the badge raises, \<open>versionSet.add\<close> has already run and
  \<open>versions.push\<close> has not.
\<close>

definition scan_version_file ::
  "env \<Rightarrow> string list \<times> ApiVersionInfo list \<Rightarrow> string \<times> string
    \<Rightarrow> string list \<times> ApiVersionInfo list" where
  "scan_version_file e st file =
     (case match_version_dir (fst file) of
        None \<Rightarrow> st
      | Some version \<Rightarrow>
          if \<not> is_version_name version then st
          else
            (case yaml_parse e (snd file) of
               None \<Rightarrow> st
             | Some spec \<Rightarrow>
                 if truthy spec \<and> truthy (get spec ''info'') then
                   (case declared_badge (get spec ''info'') of
                      Inl err \<Rightarrow> (set_add version (fst st), snd st)
                    | Inr b \<Rightarrow>
                        (set_add version (fst st),
                         snd st @
                           [\<lparr> v_version = version,
                              v_label = version,
                              v_badge = b,
                              v_description = get (get spec ''info'') ''description'',
                              specExists = True \<rparr>]))
                 else st))"

text \<open>The \<open>map\<close> callback that builds the entry of one sorted version.\<close>

definition version_entry :: "ApiVersionInfo list \<Rightarrow> string \<times> nat \<Rightarrow> ApiVersionInfo" where
  "version_entry versions vi =
     (let version = fst vi; index = snd vi;
          existingVersion = find (\<lambda>v. v_version v = version) versions;
          is_last = (int index = int (length versions) - 1)
      in \<lparr> v_version = version,
            v_label = (if index = 0 then version @ '' (Latest)'' else version),
            v_badge =
              (case existingVersion of
                 Some x \<Rightarrow>
                   if truthy (v_badge x) then v_badge x
                   else if index = 0 then JStr ''Latest''
                   else if is_last then JStr ''Legacy'' else JUndefined
               | None \<Rightarrow>
                   if index = 0 then JStr ''Latest''
                   else if is_last then JStr ''Legacy'' else JUndefined),
            v_description =
              (case existingVersion of
                 Some x \<Rightarrow>
                   if truthy (v_description x) then v_description x
                   else if index = 0 then JStr ''Current stable version with latest features''
                   else if is_last then JStr ''Legacy version - consider upgrading''
                   else JStr ''Stable version''
               | None \<Rightarrow>
                   if index = 0 then JStr ''Current stable version with latest features''
                   else if is_last then JStr ''Legacy version - consider upgrading''
                   else JStr ''Stable version''),
            specExists = True \<rparr>)"

text \<open>
  \<open>Array.from(versionSet).sort((a, b) => parseInt(b.substring(1)) - parseInt(a.substring(1)))\<close>:
  a stable sort, descending in the number.
\<close>

definition sort_versions :: "string list \<Rightarrow> string list" where
  "sort_versions vs = sort_key (\<lambda>v. - int (version_number v)) vs"

definition service_files :: "env \<Rightarrow> string \<Rightarrow> string \<Rightarrow> (string \<times> string) list option" where
  "service_files e serviceName language =
     map_option
       (filter (\<lambda>f. str_includes (fst f)
                       (''/docs/'' @ language @ ''/apispecs/'' @ serviceName @ ''/'')))
       (versioned_glob e)"

definition scan_versions :: "env \<Rightarrow> (string \<times> string) list \<Rightarrow> string list \<times> ApiVersionInfo list" where
  "scan_versions e serviceFiles = foldl (scan_version_file e) ([], []) serviceFiles"

definition detect_versions :: "env \<Rightarrow> (string \<times> string) list \<Rightarrow> ApiVersionInfo list" where
  "detect_versions e serviceFiles =
     (let st = scan_versions e serviceFiles;
          sorted = sort_versions (fst st)
      in map (version_entry (snd st)) (zip sorted [0 ..< length sorted]))"

definition fallbackVersions :: "ApiVersionInfo list" where
  "fallbackVersions =
     [\<lparr> v_version = ''v2'', v_label = ''v2 (Latest)'', v_badge = JStr ''Latest'',
         v_description = JStr ''Current stable version'', specExists = False \<rparr>,
      \<lparr> v_version = ''v1'', v_label = ''v1'', v_badge = JStr ''Legacy'',
         v_description = JStr ''Legacy version'', specExists = False \<rparr>]"

text \<open>
  \<open>getApiVersions\<close> over the module's \<open>versionCache\<close>, a \<open>Map\<close> from key to list. The
  clock is a reading of \<open>Date.now()\<close> at the call; the function never takes one, and
  \<open>VERSION_CACHE_DURATION\<close> (the module's \<open>CACHE_DURATION\<close>) occurs in no expression.
\<close>

definition VERSION_CACHE_DURATION :: int where
  "VERSION_CACHE_DURATION = 5 * 60 * 1000"

definition version_cache_key :: "string \<Rightarrow> string \<Rightarrow> string" where
  "version_cache_key serviceName language = serviceName @ ''-'' @ language"

definition getApiVersions ::
  "env \<Rightarrow> int \<Rightarrow> (string \<rightharpoonup> ApiVersionInfo list) \<Rightarrow> string \<Rightarrow> string
    \<Rightarrow> ApiVersionInfo list \<times> (string \<rightharpoonup> ApiVersionInfo list)" where
  "getApiVersions e now versionCache serviceName language =
     (case versionCache (version_cache_key serviceName language) of
        Some cached \<Rightarrow> (cached, versionCache)
      | None \<Rightarrow>
          (case service_files e serviceName language of
             None \<Rightarrow>
               (fallbackVersions,
                versionCache(version_cache_key serviceName language \<mapsto> fallbackVersions))
           | Some serviceFiles \<Rightarrow>
               (detect_versions e serviceFiles,
                versionCache(version_cache_key serviceName language
                               \<mapsto> detect_versions e serviceFiles))))"

definition clearApiVersionCache ::
  "(string \<rightharpoonup> ApiVersionInfo list) \<Rightarrow> (string \<rightharpoonup> ApiVersionInfo list)" where
  "clearApiVersionCache versionCache = Map.empty"

section \<open>The simple loader (simple-openapi-loader.ts)\<close>

record SimpleApiOperation =
  s_operationId :: json
  s_method :: string
  s_path :: string
  s_summary :: json
  s_description :: json
  s_tags :: json

definition simple_methods :: "string list" where
  "simple_methods = [''get'', ''post'', ''put'', ''patch'', ''delete'', ''head'', ''options'']"

text \<open>The object literal pushed for a method object of a path.\<close>

definition simple_operation_object :: "string \<Rightarrow> string \<Rightarrow> json \<Rightarrow> SimpleApiOperation" where
  "simple_operation_object pathStr method operation =
     \<lparr> s_operationId =
         (if truthy (get operation ''operationId'') then get operation ''operationId''
          else JStr (method @ ''-'' @ pathStr)),
       s_method = toUpperCase method,
       s_path = pathStr,
       s_summary = (if truthy (get operation ''summary'') then get operation ''summary''
                    else JStr []),
       s_description = get operation ''description'',
       s_tags = (if truthy (get operation ''tags'') then get operation ''tags'' else JArr []) \<rparr>"

text \<open>
  The callback of \<open>methods.forEach\<close>: the operations it pushes for one method (none or
  one), or the \<open>TypeError\<close> of \<open>'operationId' in operation\<close> on a primitive.
\<close>

definition simple_method_operation :: "string \<Rightarrow> json \<Rightarrow> string \<Rightarrow> SimpleApiOperation list result" where
  "simple_method_operation pathStr pathItem method =
     (if \<not> truthy (get pathItem method) then Inr []
      else
        (case has_property ''operationId'' (get pathItem method) of
           Inl err \<Rightarrow> Inl err
         | Inr False \<Rightarrow> Inr []
         | Inr True \<Rightarrow> Inr [simple_operation_object pathStr method (get pathItem method)]))"

fun is_string :: "json \<Rightarrow> bool" where
  "is_string (JStr s) = True"
| "is_string v = False"

definition simple_path_operations :: "string \<times> json \<Rightarrow> SimpleApiOperation list result" where
  "simple_path_operations entry =
     (if \<not> truthy (snd entry) \<or> is_string (snd entry) then Inr []
      else
        (case collect_results (map (simple_method_operation (fst entry) (snd entry)) simple_methods) of
           Inl err \<Rightarrow> Inl err
         | Inr opss \<Rightarrow> Inr (concat opss)))"

definition simple_operations :: "json \<Rightarrow> SimpleApiOperation list result" where
  "simple_operations spec =
     (if \<not> truthy (get spec ''paths'') then Inr []
      else
        (case collect_results (map simple_path_operations (entries (get spec ''paths''))) of
           Inl err \<Rightarrow> Inl err
         | Inr opss \<Rightarrow> Inr (concat opss)))"

record SimpleApiSpec =
  simple_id :: string
  simple_title :: json
  simple_description :: json
  simple_version :: json
  simple_language :: string
  folderVersion :: string
  simple_document :: json
  simple_operations_of :: "SimpleApiOperation list"
  filePath_of :: string

text \<open>
  The loop that tries each YAML file of the directory in turn. A file is a name with
  the text \<open>readFileSync\<close> returns (\<open>None\<close> when reading raises); every exception inside
  the loop body is caught and the next file is tried.
\<close>

fun first_valid_spec ::
  "env \<Rightarrow> string \<Rightarrow> string \<Rightarrow> string \<Rightarrow> string \<Rightarrow> (string \<times> string option) list
    \<Rightarrow> SimpleApiSpec option" where
  "first_valid_spec e basePath serviceName language version [] = None"
| "first_valid_spec e basePath serviceName language version ((fileName, content) # files) =
     (case (case content of None \<Rightarrow> None | Some text \<Rightarrow> yaml_parse e text) of
        None \<Rightarrow> first_valid_spec e basePath serviceName language version files
      | Some spec \<Rightarrow>
          if \<not> truthy spec \<or> \<not> truthy (get spec ''info'') \<or> \<not> truthy (get spec ''openapi'')
          then first_valid_spec e basePath serviceName language version files
          else
            (case simple_operations spec of
               Inl err \<Rightarrow> first_valid_spec e basePath serviceName language version files
             | Inr ops \<Rightarrow>
                 Some \<lparr> simple_id = serviceName,
                        simple_title = get (get spec ''info'') ''title'',
                        simple_description =
                          (if truthy (get (get spec ''info'') ''description'')
                           then get (get spec ''info'') ''description'' else JStr []),
                        simple_version = get (get spec ''info'') ''version'',
                        simple_language = language,
                        folderVersion = version,
                        simple_document = spec,
                        simple_operations_of = ops,
                        filePath_of = basePath @ ''/'' @ fileName \<rparr>))"

text \<open>
  \<open>loadSimpleApiSpec\<close> on the directory \<open>basePath\<close>: \<open>None\<close> for the listing is a
  directory that does not exist (or cannot be listed).
\<close>

definition loadSimpleApiSpec ::
  "env \<Rightarrow> string \<Rightarrow> (string \<times> string option) list option \<Rightarrow> string \<Rightarrow> string \<Rightarrow> string
    \<Rightarrow> SimpleApiSpec option" where
  "loadSimpleApiSpec e basePath listing serviceName language version =
     (case listing of
        None \<Rightarrow> None
      | Some names \<Rightarrow>
          first_valid_spec e basePath serviceName language version
            (filter (\<lambda>f. endsWith (fst f) ''.yaml'' \<or> endsWith (fst f) ''.yml'') names))"

section \<open>Auxiliary predicates for the proofs\<close>

text \<open>A string without two underscores in a row.\<close>

fun no_adjacent :: "string \<Rightarrow> bool" where
  "no_adjacent (c # d # cs) = (\<not> (c = CHR ''_'' \<and> d = CHR ''_'') \<and> no_adjacent (d # cs))"
| "no_adjacent cs = True"

text \<open>The elements of a result that is a list; none when it is an error.\<close>

fun result_set :: "'a list result \<Rightarrow> 'a set" where
  "result_set (Inr zs) = set zs"
| "result_set (Inl err) = {}"

text \<open>What the simple loader pushes for one method of one path item.\<close>

definition simple_hits :: "string \<Rightarrow> json \<Rightarrow> string \<Rightarrow> SimpleApiOperation set" where
  "simple_hits pathStr pathItem method =
     {op. truthy (get pathItem method)
        \<and> has_property ''operationId'' (get pathItem method) = Inr True
        \<and> op = simple_operation_object pathStr method (get pathItem method)}"

section \<open>Sample documents\<close>

text \<open>Concrete environments and documents on which the theorems below are instantiated.\<close>

definition sample_env :: env where
  "sample_env =
     \<lparr> yaml_parse = (\<lambda>t. None),
       render_markdown = (\<lambda>operation method p spec. Inr []),
       sort_operations = (\<lambda>ops. Inr ops),
       versioned_glob = Some [],
       legacy_glob = Some [] \<rparr>"

definition orders_doc :: json where
  "orders_doc =
     JObj [(''info'', JObj [(''title'', JStr ''Orders'')]),
           (''paths'', JObj [(''/users/{id}/orders'',
               JObj [(''get'', JObj [(''summary'', JStr ''List orders'')])]),
             (''/files/order{id}.json'',
               JObj [(''put'', JObj [(''summary'', JStr ''Store an order'')])])])]"

definition pets_doc :: json where
  "pets_doc =
     JObj [(''openapi'', JStr ''3.0.0''),
           (''info'', JObj [(''title'', JStr ''Pets''), (''version'', JStr ''1.0.0'')]),
           (''paths'', JObj [(''/pets'',
               JObj [(''get'', JObj [(''operationId'', JNull), (''summary'', JStr ''List pets'')]),
                     (''post'', JObj [(''summary'', JStr ''Add a pet'')]),
                     (''put'', JObj [(''operationId'', JStr ''updatePet'')])])])]"

definition pets_env :: env where
  "pets_env = sample_env \<lparr> yaml_parse := (\<lambda>t. if t = ''pets'' then Some pets_doc else None) \<rparr>"

definition pets_spec :: SimpleApiSpec where
  "pets_spec =
     \<lparr> simple_id = ''pets'',
       simple_title = JStr ''Pets'',
       simple_description = JStr [],
       simple_version = JStr ''1.0.0'',
       simple_language = ''en'',
       folderVersion = ''v3'',
       simple_document = pets_doc,
       simple_operations_of =
         [\<lparr> s_operationId = JStr ''get-/pets'', s_method = ''GET'', s_path = ''/pets'',
             s_summary = JStr ''List pets'', s_description = JUndefined, s_tags = JArr [] \<rparr>,
          \<lparr> s_operationId = JStr ''updatePet'', s_method = ''PUT'', s_path = ''/pets'',
             s_summary = JStr [], s_description = JUndefined, s_tags = JArr [] \<rparr>],
       filePath_of = ''docs/en/apispecs/pets/v3/pets.yaml'' \<rparr>"

definition components_doc :: json where
  "components_doc =
     JObj [(''info'', JObj [(''title'', JStr ''Shop'')]),
           (''components'', JObj [(''schemas'',
               JObj [(''Id'', JObj [(''type'', JStr ''integer'')]),
                     (''Colour'', JObj [(''type'', JStr ''string''),
                                       (''enum'', JArr [JStr ''red'', JStr ''green''])])])])]"



definition missing_ref_schema :: json where
  "missing_ref_schema = JObj [(''$ref'', JStr ''#/components/schemas/Missing'')]"

definition caller_ref_schema :: json where
  "caller_ref_schema = JObj [(''$ref'', JStr ''#/constructor/caller'')]"




text \<open>
  A fragment of the prototype chain of ECMAScript, for the sample documents: every
  document value inherits \<open>constructor\<close> from its prototype, a built-in function
  (\<open>Object\<close> for an object, \<open>Array\<close>, \<open>String\<close>, \<open>Number\<close>, \<open>Boolean\<close>); a built-in function
  inherits the accessors \<open>caller\<close> and \<open>arguments\<close> of \<open>Function.prototype\<close>, which
  raise a \<open>TypeError\<close> when read on it. The other names that the built-in prototypes
  define (\<open>toString\<close>, \<open>valueOf\<close>, \<open>length\<close> and so on) are left out: the fragment reads
  them as not inherited, and no sample below reads one.
\<close>

definition constructor_of :: "json \<Rightarrow> string" where
  "constructor_of v =
     (case v of
        JArr xs \<Rightarrow> ''Array''
      | JStr s \<Rightarrow> ''String''
      | JNum n \<Rightarrow> ''Number''
      | JBool b \<Rightarrow> ''Boolean''
      | _ \<Rightarrow> ''Object'')"

definition ecma_chain :: prototype_chain where
  "ecma_chain v k =
     (case v of
        Doc d \<Rightarrow>
          if k = ''constructor'' then Inr (Host (constructor_of d)) else Inr (Doc JUndefined)
      | Host h \<Rightarrow>
          if k = ''caller'' \<or> k = ''arguments'' then Inl TypeError else Inr (Doc JUndefined))"

definition payment_doc :: json where
  "payment_doc = JObj [(''info'', JObj [(''title'', JStr ''Payment API''), (''version'', JStr ''1.0.0'')])]"

definition payment_spec :: "string \<Rightarrow> DynamicApiSpec" where
  "payment_spec fileName =
     \<lparr> spec_id = ''payment-api'',
       spec_fileName = fileName,
       spec_title = JStr ''Payment API'',
       spec_description = JUndefined,
       spec_version = JStr ''1.0.0'',
       spec_serviceName = ''Payment API'',
       spec_operations = [],
       spec_document = payment_doc,
       spec_language = ''en'' \<rparr>"

definition payment_env :: env where
  "payment_env =
     sample_env \<lparr> yaml_parse := (\<lambda>t. if t = ''payment'' then Some payment_doc else None),
                  versioned_glob :=
                    Some [(''/src/content/docs/en/apispecs/payment-api/v3/payment.yaml'', ''payment'')] \<rparr>"

definition duplicate_env :: env where
  "duplicate_env =
     sample_env \<lparr> yaml_parse := (\<lambda>t. if t = ''payment'' then Some payment_doc else None),
                  versioned_glob :=
                    Some [(''/src/content/docs/en/apispecs/payment-api/v2/payment.yaml'', ''payment''),
                          (''/src/content/docs/en/apispecs/payment-api/v2/duplicate.yaml'', ''payment'')] \<rparr>"

definition legacy_doc :: json where
  "legacy_doc = JObj [(''info'', JObj [(''title'', JStr ''Payment API'')])]"

definition legacy_only_env :: env where
  "legacy_only_env =
     sample_env \<lparr> yaml_parse := (\<lambda>t. if t = ''legacy'' then Some legacy_doc else None),
                  versioned_glob := Some [],
                  legacy_glob := Some [(''/src/content/docs/en/apispecs/payment-api.yaml'', ''legacy'')] \<rparr>"

definition things_doc :: json where
  "things_doc =
     JObj [(''info'', JObj [(''title'', JStr ''Things'')]),
           (''paths'', JObj [(''/things'', JObj [(''get'', JObj [(''operationId'', JStr ''listThings'')])])])]"

definition v3_service_env :: env where
  "v3_service_env =
     sample_env \<lparr> yaml_parse := (\<lambda>t. if t = ''things'' then Some things_doc else None),
                  versioned_glob :=
                    Some [(''/src/content/docs/en/apispecs/v3/v1/api.yaml'', ''things'')] \<rparr>"

definition versions_env :: env where
  "versions_env =
     sample_env
       \<lparr> yaml_parse := (\<lambda>t. if t = ''plain'' then Some payment_doc
                            else if t = ''preview''
                              then Some (JObj [(''info'', JObj [(''title'', JStr ''Payment API''),
                                                              (''x-version-status'', JStr ''Preview'')])])
                            else None),
         versioned_glob :=
           Some [(''/src/content/docs/en/apispecs/payment-api/v2/payment.yaml'', ''plain''),
                 (''/src/content/docs/en/apispecs/payment-api/v10/payment.yaml'', ''preview''),
                 (''/src/content/docs/en/apispecs/payment-api/v1/payment.yaml'', ''plain''),
                 (''/src/content/docs/en/apispecs/orders-api/v3/orders.yaml'', ''plain'')] \<rparr>"

definition two_files_env :: env where
  "two_files_env =
     sample_env
       \<lparr> yaml_parse := (\<lambda>t. if t = ''plain'' then Some payment_doc else None),
         versioned_glob :=
           Some [(''/src/content/docs/en/apispecs/payment-api/v2/payment.yaml'', ''plain''),
                 (''/src/content/docs/en/apispecs/payment-api/v1/payment.yaml'', ''plain''),
                 (''/src/content/docs/en/apispecs/payment-api/v1/extra.yaml'', ''plain'')] \<rparr>"

section \<open>Reference resolution and example values\<close>

declare generateExampleFromSchema.simps(2) [simp del]
















text \<open>
  Claim C5 asks that a segment missing from the document gives \<open>null\<close> and no exception,
  for every document. The walk reads each segment with \<open>resolvedSchema?.[part]\<close>, and
  such a read continues along the prototype chain. The sample document has no key
  \<open>constructor\<close>; for the pointer \<open>#/constructor/caller\<close> the first read finds the
  built-in function \<open>Object\<close> that every object inherits under this name, and the read
  of \<open>caller\<close> on that function raises a \<open>TypeError\<close>. A segment that neither the
  document nor the chain has gives \<open>null\<close>.
\<close>

theorem inherited_segment_raises:
  "get components_doc ''constructor'' = JUndefined
   \<and> ref_path ''#/constructor/caller'' = [''constructor'', ''caller'']
   \<and> js_read ecma_chain (Doc components_doc) ''constructor'' = Inr (Host ''Object'')
   \<and> js_read ecma_chain (Host ''Object'') ''caller'' = Inl TypeError
   \<and> generateExampleFromSchema ecma_chain (Suc 0) caller_ref_schema components_doc
        = Some (Inl TypeError)
   \<and> generateExampleFromSchema ecma_chain (Suc 0) missing_ref_schema components_doc
        = Some (Inr JNull)"
  by (simp add: generateExampleFromSchema.simps(2) caller_ref_schema_def missing_ref_schema_def
      components_doc_def ref_path_def ecma_chain_def constructor_of_def)
section \<open>The versioned loader\<close>

lemmas eval_defs =
  loadAllApiSpecs_def fresh_cache_def versioned_files_for_def load_versioned_file_def
  match_versioned_path_def extractOperationsFromSpec_def formatServiceName_def capitalize_def
  endsWith_def to_upper_char_def lower_chars_def upper_chars_def Let_def
  CACHE_DURATION_def startsWith_def

lemma payment_first:
  "loadAllApiSpecs payment_env 0 0 None ''en'' ''v3'' =
     ([payment_spec ''payment.yaml''],
      Some \<lparr> cached_specs = [payment_spec ''payment.yaml''], lastUpdated = 0 \<rparr>)"
  by (simp add: eval_defs payment_env_def sample_env_def payment_doc_def payment_spec_def)

lemma payment_second:
  "loadAllApiSpecs payment_env 1000 1000
      (Some \<lparr> cached_specs = [payment_spec ''payment.yaml''], lastUpdated = 0 \<rparr>) ''en'' ''v3'' =
     ([], Some \<lparr> cached_specs = [payment_spec ''payment.yaml''], lastUpdated = 0 \<rparr>)"
  by (simp add: eval_defs payment_env_def sample_env_def payment_doc_def payment_spec_def)

text \<open>
  A cache hit reads no file: the result depends on the cache alone, and the cache stays
  as it is. The hit path keeps the specs whose version string starts with the requested
  version.
\<close>

lemma cache_hit_reads_no_files:
  "fresh_cache now cache = Some c \<Longrightarrow>
     loadAllApiSpecs e now now_update cache language version =
       loadAllApiSpecs e' now now_update' cache language version
     \<and> snd (loadAllApiSpecs e now now_update cache language version) = cache"
  by (simp add: loadAllApiSpecs_def split: sum.splits)

lemma cache_filter_keeps_matching:
  "list_all (\<lambda>s. spec_language s = language
               \<and> (\<exists>v. spec_version s = JStr v \<and> startsWith v version)) specs \<Longrightarrow>
     cache_filter language version specs = Inr specs"
  by (induction specs) auto

text \<open>
  Claim C1 asks that a second call for the same language and version inside the five
  minutes returns what the first returned. The hit path filters the cached list by
  \<open>spec.version.startsWith(version)\<close>, where \<open>spec.version\<close> is the document's own
  \<open>info.version\<close> when it has one: for a document of directory \<open>v3\<close> that declares
  version \<open>1.0.0\<close>, the first call returns the spec and the second, one second later and
  served from the cache, returns the empty list.
\<close>

theorem cached_call_loses_spec:
  "fst (loadAllApiSpecs payment_env 0 0 None ''en'' ''v3'') = [payment_spec ''payment.yaml'']
   \<and> fresh_cache 1000 (snd (loadAllApiSpecs payment_env 0 0 None ''en'' ''v3'')) =
       Some \<lparr> cached_specs = [payment_spec ''payment.yaml''], lastUpdated = 0 \<rparr>
   \<and> fst (loadAllApiSpecs payment_env 1000 1000
            (snd (loadAllApiSpecs payment_env 0 0 None ''en'' ''v3'')) ''en'' ''v3'') = []"
  by (simp add: payment_first payment_second) (simp add: fresh_cache_def CACHE_DURATION_def)

lemma map_filter_all2:
  "list_all2 (\<lambda>x y. g x = Some y) (filter (\<lambda>x. g x \<noteq> None) xs) (List.map_filter g xs)"
  by (induction xs) (auto simp: List.map_filter_simps split: option.splits)

lemma load_versioned_file_id:
  "load_versioned_file e language f = Some s \<Longrightarrow>
     \<exists>versionDir fileName. match_versioned_path (fst f) = Some (spec_id s, versionDir, fileName)"
  by (auto simp: load_versioned_file_def split: option.splits if_splits sum.splits)

lemma load_versioned_file_valid:
  "load_versioned_file e language f \<noteq> None \<longleftrightarrow>
     (\<exists>serviceName versionDir fileName spec ops.
        match_versioned_path (fst f) = Some (serviceName, versionDir, fileName)
      \<and> yaml_parse e (snd f) = Some spec \<and> truthy spec \<and> truthy (get spec ''info'')
      \<and> extractOperationsFromSpec e spec = Inr ops)"
  by (auto simp: load_versioned_file_def split: option.splits if_splits sum.splits)

lemma loadAllApiSpecs_miss:
  "fresh_cache now cache = None \<Longrightarrow> versioned_files_for e language version = Some files \<Longrightarrow>
     loadAllApiSpecs e now now_update cache language version =
       (List.map_filter (load_versioned_file e language) files,
        Some \<lparr> cached_specs = List.map_filter (load_versioned_file e language) files,
               lastUpdated = now_update \<rparr>)"
  by (simp add: loadAllApiSpecs_def Let_def)

text \<open>
  Claim C2, as the code has it. On a cache miss the loader returns one spec for every
  file of the language and version that loads (path of the expected shape, text that
  parses, an \<open>info\<close> block, operations extracted without an exception), in the order of
  the files, with the file's service directory as its id. Nothing removes a second
  file of the same service directory.
\<close>

theorem one_spec_per_loaded_file:
  assumes "fresh_cache now cache = None"
    and "versioned_files_for e language version = Some files"
  shows "list_all2
           (\<lambda>f s. load_versioned_file e language f = Some s
                \<and> (\<exists>versionDir fileName.
                      match_versioned_path (fst f) = Some (spec_id s, versionDir, fileName)))
           (filter (\<lambda>f. load_versioned_file e language f \<noteq> None) files)
           (fst (loadAllApiSpecs e now now_update cache language version))
       \<and> (\<forall>f. load_versioned_file e language f \<noteq> None \<longleftrightarrow>
              (\<exists>serviceName versionDir fileName spec ops.
                 match_versioned_path (fst f) = Some (serviceName, versionDir, fileName)
               \<and> yaml_parse e (snd f) = Some spec \<and> truthy spec \<and> truthy (get spec ''info'')
               \<and> extractOperationsFromSpec e spec = Inr ops))"
proof -
  have "list_all2 (\<lambda>f s. load_versioned_file e language f = Some s)
          (filter (\<lambda>f. load_versioned_file e language f \<noteq> None) files)
          (List.map_filter (load_versioned_file e language) files)"
    by (rule map_filter_all2)
  then have "list_all2
           (\<lambda>f s. load_versioned_file e language f = Some s
                \<and> (\<exists>versionDir fileName.
                      match_versioned_path (fst f) = Some (spec_id s, versionDir, fileName)))
           (filter (\<lambda>f. load_versioned_file e language f \<noteq> None) files)
           (List.map_filter (load_versioned_file e language) files)"
    by (rule list_all2_mono) (auto dest: load_versioned_file_id)
  then show ?thesis
    using load_versioned_file_valid by (simp add: loadAllApiSpecs_miss [OF assms])
qed

lemma duplicate_files:
  "versioned_files_for duplicate_env ''en'' ''v2'' =
     Some [(''/src/content/docs/en/apispecs/payment-api/v2/payment.yaml'', ''payment''),
           (''/src/content/docs/en/apispecs/payment-api/v2/duplicate.yaml'', ''payment'')]"
  by (simp add: eval_defs duplicate_env_def sample_env_def)

theorem one_spec_per_loaded_file_witness:
  "fresh_cache 0 None = None
   \<and> list_all2
        (\<lambda>f s. load_versioned_file duplicate_env ''en'' f = Some s
             \<and> (\<exists>versionDir fileName.
                   match_versioned_path (fst f) = Some (spec_id s, versionDir, fileName)))
        (filter (\<lambda>f. load_versioned_file duplicate_env ''en'' f \<noteq> None)
           [(''/src/content/docs/en/apispecs/payment-api/v2/payment.yaml'', ''payment''),
            (''/src/content/docs/en/apispecs/payment-api/v2/duplicate.yaml'', ''payment'')])
        (fst (loadAllApiSpecs duplicate_env 0 0 None ''en'' ''v2''))"
proof -
  have miss: "fresh_cache 0 None = None" by (simp add: fresh_cache_def)
  from one_spec_per_loaded_file [OF miss duplicate_files, of 0] miss show ?thesis by blast
qed

text \<open>
  Against claim C2 as stated: two valid files in one service directory give two specs
  with the same id.
\<close>

theorem duplicate_files_both_listed:
  "map spec_id (fst (loadAllApiSpecs duplicate_env 0 0 None ''en'' ''v2'')) =
     [''payment-api'', ''payment-api'']
   \<and> map spec_fileName (fst (loadAllApiSpecs duplicate_env 0 0 None ''en'' ''v2'')) =
     [''payment.yaml'', ''duplicate.yaml'']"
  by (simp add: eval_defs duplicate_env_def sample_env_def payment_doc_def payment_spec_def)

text \<open>
  Claim C3 asks that the loader falls back to the legacy layout whenever the versioned
  layout has no file for the requested language and version. The code calls
  \<open>loadLegacyApiSpecs\<close> only in the \<open>catch\<close> around the glob import. With no versioned
  file and one legacy file for the language, the loader returns the empty list and
  stores it in the cache, while the legacy loader has the spec of that file, with
  version \<open>1.0.0\<close> for a document that declares none.
\<close>

theorem no_fallback_when_no_versioned_files:
  "versioned_files_for legacy_only_env ''en'' ''v3'' = Some []
   \<and> loadAllApiSpecs legacy_only_env 0 0 None ''en'' ''v3'' =
       ([], Some \<lparr> cached_specs = [], lastUpdated = 0 \<rparr>)
   \<and> map spec_id (loadLegacyApiSpecs legacy_only_env ''en'') = [''payment-api'']
   \<and> map spec_version (loadLegacyApiSpecs legacy_only_env ''en'') = [JStr ''1.0.0'']"
  by (simp add: loadLegacyApiSpecs_def load_legacy_file_def strip_yaml_extension_def
      eval_defs legacy_only_env_def sample_env_def legacy_doc_def)

text \<open>
  Claim C9 asks that an operation that exists only under another version directory is
  never returned. \<open>getApiOperation\<close> asks for version \<open>v3\<close>, and the loader selects the
  files of a version with the substring test \<open>path.includes('/v3/')\<close>, which the path
  of a service directory named \<open>v3\<close> passes. The one file of the sample lies in version
  directory \<open>v1\<close> of that service, and its operation is returned.
\<close>

theorem operation_of_other_version_returned:
  "match_versioned_path ''/src/content/docs/en/apispecs/v3/v1/api.yaml'' =
     Some (''v3'', ''v1'', ''api.yaml'')
   \<and> versioned_glob v3_service_env =
       Some [(''/src/content/docs/en/apispecs/v3/v1/api.yaml'', ''things'')]
   \<and> map_option operationId (fst (getApiOperation v3_service_env 0 0 None ''v3'' ''listThings'' ''en''))
       = Some (JStr ''listThings'')"
  by (simp add: eval_defs v3_service_env_def things_doc_def sample_env_def getApiOperation_def getApiSpecById_def
      pushed_operations_def declared_operations_def path_item_operations_def http_methods_def
      push_operation_def operation_id_of_def toUpperCase_def)

section \<open>Operation ids: the code against the specification's wording\<close>

lemma underscore_not_alnum: "\<not> is_alnum CHR ''_''"
  by (simp add: is_alnum_def lower_chars_def upper_chars_def digit_chars_def)

lemma collapse_keep: "c \<noteq> CHR ''_'' \<Longrightarrow> collapse_underscores (c # xs) = c # collapse_underscores xs"
  by (cases xs) simp_all

lemma collapse_run:
  "collapse_underscores (CHR ''_'' # underscore_non_alnum cs) =
     CHR ''_'' # collapse_underscores (underscore_non_alnum (dropWhile (\<lambda>d. \<not> is_alnum d) cs))"
proof (induction cs)
  case Nil
  show ?case by (simp add: underscore_non_alnum_def)
next
  case (Cons d ds)
  show ?case
  proof (cases "is_alnum d")
    case True
    then have "d \<noteq> CHR ''_''" using underscore_not_alnum by auto
    with True show ?thesis by (simp add: underscore_non_alnum_def)
  next
    case False
    with Cons show ?thesis by (simp add: underscore_non_alnum_def)
  qed
qed

lemma collapse_is_squash: "collapse_underscores (underscore_non_alnum s) = squash_runs s"
proof (induction s rule: squash_runs.induct)
  case 1
  show ?case by (simp add: underscore_non_alnum_def)
next
  case (2 c cs)
  show ?case
  proof (cases "is_alnum c")
    case True
    then have ne: "c \<noteq> CHR ''_''" using underscore_not_alnum by auto
    have "underscore_non_alnum (c # cs) = c # underscore_non_alnum cs"
      using True by (simp add: underscore_non_alnum_def)
    with True ne 2 show ?thesis by (simp add: collapse_keep)
  next
    case False
    have "underscore_non_alnum (c # cs) = CHR ''_'' # underscore_non_alnum cs"
      using False by (simp add: underscore_non_alnum_def)
    with False 2 show ?thesis by (simp add: collapse_run)
  qed
qed

lemma collapse_head: "hd (collapse_underscores (c # cs)) = c \<and> collapse_underscores (c # cs) \<noteq> []"
proof (induction cs arbitrary: c)
  case Nil
  show ?case by simp
next
  case (Cons d ds)
  from Cons [of d] show ?case by auto
qed

lemma no_adjacent_collapse: "no_adjacent (collapse_underscores s)"
proof (induction s rule: collapse_underscores.induct)
  case (1 c d cs)
  obtain ys where ys: "collapse_underscores (d # cs) = d # ys"
    using collapse_head [of d cs] by (cases "collapse_underscores (d # cs)") auto
  with 1 show ?case by auto
qed simp_all

lemma no_adjacent_tl: "no_adjacent (c # cs) \<Longrightarrow> no_adjacent cs"
  by (cases cs) simp_all

lemma no_adjacent_last:
  "no_adjacent s \<Longrightarrow> s \<noteq> [] \<Longrightarrow> last s = CHR ''_'' \<Longrightarrow> butlast s = [] \<or> last (butlast s) \<noteq> CHR ''_''"
proof (induction s rule: no_adjacent.induct)
  case (1 c d cs)
  then show ?case by (cases cs) (auto split: if_splits)
qed simp_all

lemma strip_front:
  "no_adjacent s \<Longrightarrow>
     dropWhile (\<lambda>c. c = CHR ''_'') s = (case s of [] \<Rightarrow> [] | c # cs \<Rightarrow> if c = CHR ''_'' then cs else s)"
  by (cases s rule: no_adjacent.cases) auto

lemma strip_back:
  assumes "no_adjacent s"
  shows "rev (dropWhile (\<lambda>c. c = CHR ''_'') (rev s)) =
           (if s \<noteq> [] \<and> last s = CHR ''_'' then butlast s else s)"
proof (cases "s \<noteq> [] \<and> last s = CHR ''_''")
  case True
  then have s: "s = butlast s @ [CHR ''_'']" by (metis append_butlast_last_id)
  have "butlast s = [] \<or> last (butlast s) \<noteq> CHR ''_''"
    using no_adjacent_last [OF assms] True by blast
  then have "dropWhile (\<lambda>c. c = CHR ''_'') (rev (butlast s)) = rev (butlast s)"
    by (cases "butlast s" rule: rev_cases) auto
  then have "dropWhile (\<lambda>c. c = CHR ''_'') (rev s) = rev (butlast s)"
    by (subst s) simp
  with True show ?thesis by simp
next
  case False
  then have "dropWhile (\<lambda>c. c = CHR ''_'') (rev s) = rev s"
    by (cases s rule: rev_cases) auto
  with False show ?thesis by auto
qed

lemma strip_edge_is_strip:
  assumes "no_adjacent s"
  shows "strip_edge_underscores s = strip_underscores s"
proof -
  let ?s1 = "dropWhile (\<lambda>c. c = CHR ''_'') s"
  have s1: "?s1 = (case s of [] \<Rightarrow> [] | c # cs \<Rightarrow> if c = CHR ''_'' then cs else s)"
    by (rule strip_front [OF assms])
  have n1: "no_adjacent ?s1"
    using assms no_adjacent_tl by (auto simp: s1 split: list.splits)
  have "strip_edge_underscores s = (if ?s1 \<noteq> [] \<and> last ?s1 = CHR ''_'' then butlast ?s1 else ?s1)"
    by (simp add: strip_edge_underscores_def s1)
  also have "\<dots> = rev (dropWhile (\<lambda>c. c = CHR ''_'') (rev ?s1))"
    using strip_back [OF n1] by simp
  also have "\<dots> = strip_underscores s"
    by (simp add: strip_underscores_def)
  finally show ?thesis .
qed

lemma remove_is_drop: "remove_braces s = drop_braces s"
  by (induction s) (auto simp: remove_braces_def)

lemma generateOperationId_sanitize: "generateOperationId m p = m @ ''_'' @ sanitize_spec p"
  unfolding generateOperationId_def sanitize_spec_def
  using strip_edge_is_strip [OF no_adjacent_collapse [of "underscore_non_alnum (remove_braces p)"]]
  by (simp add: collapse_is_squash remove_is_drop)

lemma lower_methods: "m \<in> set http_methods \<Longrightarrow> toLowerCase m = m"
  by (auto simp: http_methods_def toLowerCase_def to_lower_char_def upper_chars_def lower_chars_def)

lemma collect_results_Inr: "collect_results rs = Inr xs \<Longrightarrow> rs = map Inr xs"
proof (induction rs arbitrary: xs rule: collect_results.induct)
  case 1
  then show ?case by simp
next
  case (2 err rs)
  then show ?case by simp
next
  case (3 x rs)
  then show ?case by (auto split: sum.splits)
qed

lemma declared_operations_method:
  "(p, m, operation) \<in> set (declared_operations spec) \<Longrightarrow> m \<in> set http_methods"
  by (auto simp: declared_operations_def path_item_operations_def split: if_splits)

lemma push_operation_id:
  "push_operation e spec p m operation = Inr r \<Longrightarrow> operationId r = operation_id_of m p operation"
  by (auto simp: push_operation_def split: sum.splits)

text \<open>
  Claim C6. For every method object the extraction loop reaches, the pushed operation's id
  is the declared \<open>operationId\<close> when that is truthy, and otherwise the lower-case
  method, an underscore and the sanitised path, where sanitising is the specification's
  \<open>sanitize_spec\<close>: braces are replaced with nothing, every run of non-alphanumeric
  characters with one underscore, and leading and trailing underscores are stripped.
  Method \<open>get\<close> with path \<open>/users/{id}/orders\<close> gives \<open>get_users_id_orders\<close>; a brace
  inside a segment joins what stands on its two sides, so \<open>/a{b}c\<close> gives \<open>get_abc\<close>.
  (\<open>sort_operations\<close> afterwards only reorders the records.)
\<close>

theorem operation_id_synthesis:
  assumes "pushed_operations e spec = Inr ops"
  shows "map operationId ops =
           map (\<lambda>(p, m, operation).
                  if truthy (get operation ''operationId'') then get operation ''operationId''
                  else JStr (toLowerCase m @ ''_'' @ sanitize_spec p))
               (declared_operations spec)
         \<and> generateOperationId ''get'' ''/users/{id}/orders'' = ''get_users_id_orders''
         \<and> generateOperationId ''get'' ''/a{b}c'' = ''get_abc''"
proof (intro conjI)
  let ?f = "\<lambda>(p, m, operation). push_operation e spec p m operation"
  from assms have eq: "map ?f (declared_operations spec) = map Inr ops"
    unfolding pushed_operations_def by (rule collect_results_Inr)
  then have len: "length ops = length (declared_operations spec)"
    by (metis length_map)
  show "map operationId ops =
           map (\<lambda>(p, m, operation).
                  if truthy (get operation ''operationId'') then get operation ''operationId''
                  else JStr (toLowerCase m @ ''_'' @ sanitize_spec p))
               (declared_operations spec)"
  proof (rule nth_equalityI)
    show "length (map operationId ops) = length (map (\<lambda>(p, m, operation).
                  if truthy (get operation ''operationId'') then get operation ''operationId''
                  else JStr (toLowerCase m @ ''_'' @ sanitize_spec p))
               (declared_operations spec))"
      using len by simp
  next
    fix i assume "i < length (map operationId ops)"
    then have i: "i < length ops" by simp
    obtain p m operation where d: "declared_operations spec ! i = (p, m, operation)"
      by (cases "declared_operations spec ! i") auto
    from i len have mem: "(p, m, operation) \<in> set (declared_operations spec)"
      by (metis d nth_mem)
    from eq i len have "?f (declared_operations spec ! i) = Inr (ops ! i)"
      by (metis nth_map)
    then have "operationId (ops ! i) = operation_id_of m p operation"
      using d by (simp add: push_operation_id)
    moreover have "toLowerCase m = m"
      using declared_operations_method [OF mem] by (rule lower_methods)
    ultimately show "map operationId ops ! i = map (\<lambda>(p, m, operation).
                  if truthy (get operation ''operationId'') then get operation ''operationId''
                  else JStr (toLowerCase m @ ''_'' @ sanitize_spec p))
               (declared_operations spec) ! i"
      using i len d by (simp add: operation_id_of_def generateOperationId_sanitize)
  qed
next
  show "generateOperationId ''get'' ''/users/{id}/orders'' = ''get_users_id_orders''"
    by (simp add: generateOperationId_def remove_braces_def underscore_non_alnum_def is_alnum_def
        lower_chars_def upper_chars_def digit_chars_def strip_edge_underscores_def)
next
  show "generateOperationId ''get'' ''/a{b}c'' = ''get_abc''"
    by (simp add: generateOperationId_def remove_braces_def underscore_non_alnum_def is_alnum_def
        lower_chars_def upper_chars_def digit_chars_def strip_edge_underscores_def)
qed

lemma orders_pushed:
  "pushed_operations sample_env orders_doc =
     Inr [\<lparr> operationId = JStr ''get_users_id_orders'',
            op_method = ''GET'',
            op_path = ''/users/{id}/orders'',
            op_summary = JStr ''List orders'',
            op_description = JUndefined,
            op_tags = JArr [],
            markdownContent = [] \<rparr>,
          \<lparr> operationId = JStr ''put_files_orderid_json'',
            op_method = ''PUT'',
            op_path = ''/files/order{id}.json'',
            op_summary = JStr ''Store an order'',
            op_description = JUndefined,
            op_tags = JArr [],
            markdownContent = [] \<rparr>]"
  by (simp add: pushed_operations_def declared_operations_def path_item_operations_def
      orders_doc_def sample_env_def http_methods_def push_operation_def operation_id_of_def
      generateOperationId_def remove_braces_def underscore_non_alnum_def is_alnum_def
      lower_chars_def upper_chars_def digit_chars_def strip_edge_underscores_def
      toUpperCase_def to_upper_char_def)

theorem operation_id_synthesis_witness:
  "pushed_operations sample_env orders_doc =
     Inr [\<lparr> operationId = JStr ''get_users_id_orders'',
            op_method = ''GET'',
            op_path = ''/users/{id}/orders'',
            op_summary = JStr ''List orders'',
            op_description = JUndefined,
            op_tags = JArr [],
            markdownContent = [] \<rparr>,
          \<lparr> operationId = JStr ''put_files_orderid_json'',
            op_method = ''PUT'',
            op_path = ''/files/order{id}.json'',
            op_summary = JStr ''Store an order'',
            op_description = JUndefined,
            op_tags = JArr [],
            markdownContent = [] \<rparr>]
   \<and> [JStr ''get_users_id_orders'', JStr ''put_files_orderid_json''] =
       map (\<lambda>(p, m, operation).
              if truthy (get operation ''operationId'') then get operation ''operationId''
              else JStr (toLowerCase m @ ''_'' @ sanitize_spec p))
           (declared_operations orders_doc)"
  using operation_id_synthesis [OF orders_pushed] orders_pushed by simp

section \<open>Version listing\<close>

declare bit_length.simps [simp del]

lemma to_double_small: "n < 9007199254740992 \<Longrightarrow> to_double n = n"
  by (simp add: to_double_def)

text \<open>
  The rounding of \<open>parseInt\<close> beyond \<open>2 ^ 53\<close>: an odd number there has two neighbours at
  the same distance and goes to the one with the even significand.
\<close>

lemma bit_length_bounds: "2 ^ k \<le> n \<Longrightarrow> n < 2 ^ Suc k \<Longrightarrow> bit_length n = Suc k"
proof (induction k arbitrary: n)
  case 0
  then have "n = 1" by simp
  then show ?case by (simp add: bit_length.simps)
next
  case (Suc k)
  from Suc.prems have "2 ^ k \<le> n div 2" "n div 2 < 2 ^ Suc k" by auto
  from Suc.IH [OF this] Suc.prems show ?case
    by (subst bit_length.simps) auto
qed

lemma to_double_rounds_to_even:
  "to_double 9007199254740993 = 9007199254740992
   \<and> to_double 9007199254740995 = 9007199254740996"
proof -
  have a: "bit_length 9007199254740993 = Suc 53"
    by (rule bit_length_bounds) simp_all
  have b: "bit_length 9007199254740995 = Suc 53"
    by (rule bit_length_bounds) simp_all
  show ?thesis by (simp add: to_double_def a b Let_def)
qed

lemmas eval_versions =
  getApiVersions_def service_files_def version_cache_key_def detect_versions_def scan_versions_def
  scan_version_file_def match_version_dir_def is_version_name_def is_digit_def digit_chars_def
  declared_badge_def set_add_def sort_versions_def version_number_def to_double_small
  digit_value_def version_entry_def Let_def

text \<open>
  Claim C7 asks that the lowest version is labelled \<open>Legacy\<close>. The test for the last
  entry of the sorted listing is \<open>index === versions.length - 1\<close>, where \<open>versions\<close> holds
  one record for every document read and the listing one entry for every version. With
  one document in \<open>v2\<close> and two in \<open>v1\<close> there are three records and two entries: the
  listing is \<open>v2\<close>, \<open>v1\<close>, the highest version is \<open>Latest\<close>, and the lowest has no
  badge. With one document in each of \<open>v10\<close>, \<open>v2\<close> and \<open>v1\<close> the numbers coincide: the
  listing is in descending order of the number, the declared \<open>x-version-status\<close> of
  \<open>v10\<close> stands in place of \<open>Latest\<close>, and \<open>v1\<close> is \<open>Legacy\<close>.
\<close>

theorem lowest_version_without_badge:
  "map v_version (fst (getApiVersions two_files_env 0 Map.empty ''payment-api'' ''en'')) =
     [''v2'', ''v1'']
   \<and> map v_badge (fst (getApiVersions two_files_env 0 Map.empty ''payment-api'' ''en'')) =
       [JStr ''Latest'', JUndefined]
   \<and> map v_version (fst (getApiVersions versions_env 0 Map.empty ''payment-api'' ''en'')) =
       [''v10'', ''v2'', ''v1'']
   \<and> map v_badge (fst (getApiVersions versions_env 0 Map.empty ''payment-api'' ''en'')) =
       [JStr ''Preview'', JUndefined, JStr ''Legacy'']"
  by (simp add: eval_versions two_files_env_def versions_env_def sample_env_def payment_doc_def)

section \<open>The version cache\<close>

text \<open>
  Claim C8. The version cache never expires. A call for a key the cache holds returns the
  stored list and leaves the cache as it is, whatever the environment and the clock; a
  call always leaves its result stored under its key, so a second call for the same
  key, at any later time and over any files, returns what the first returned; a call
  never changes the entry of any key already present; and only \<open>clearApiVersionCache\<close>
  removes entries. No expression of the function reads the clock or the five-minute
  constant.
\<close>

theorem version_cache_never_expires:
  "getApiVersions e2 now2 (snd (getApiVersions e1 now1 vc s l)) s l = getApiVersions e1 now1 vc s l
   \<and> (vc (version_cache_key s l) = Some cached \<longrightarrow> getApiVersions e1 now1 vc s l = (cached, vc))
   \<and> (vc k = Some v \<longrightarrow> snd (getApiVersions e1 now1 vc s l) k = Some v)
   \<and> clearApiVersionCache vc k = None"
  by (auto simp: getApiVersions_def clearApiVersionCache_def split: option.splits)

theorem version_cache_never_expires_witness:
  "[version_cache_key ''payment-api'' ''en'' \<mapsto> fallbackVersions]
       (version_cache_key ''payment-api'' ''en'') = Some fallbackVersions
   \<and> getApiVersions sample_env (1000 * VERSION_CACHE_DURATION)
        [version_cache_key ''payment-api'' ''en'' \<mapsto> fallbackVersions] ''payment-api'' ''en''
      = (fallbackVersions, [version_cache_key ''payment-api'' ''en'' \<mapsto> fallbackVersions])
   \<and> snd (getApiVersions sample_env (1000 * VERSION_CACHE_DURATION)
        [version_cache_key ''payment-api'' ''en'' \<mapsto> fallbackVersions] ''orders-api'' ''en'')
        (version_cache_key ''payment-api'' ''en'') = Some fallbackVersions"
  using version_cache_never_expires
          [where ?e1.0 = sample_env and ?now1.0 = "1000 * VERSION_CACHE_DURATION"
             and vc = "[version_cache_key ''payment-api'' ''en'' \<mapsto> fallbackVersions]"
             and s = "''payment-api''" and l = "''en''" and cached = fallbackVersions]
        version_cache_never_expires
          [where ?e1.0 = sample_env and ?now1.0 = "1000 * VERSION_CACHE_DURATION"
             and vc = "[version_cache_key ''payment-api'' ''en'' \<mapsto> fallbackVersions]"
             and s = "''orders-api''" and l = "''en''"
             and k = "version_cache_key ''payment-api'' ''en''" and v = fallbackVersions]
  by simp

section \<open>The simple loader\<close>

lemma collect_results_ok:
  "collect_results (map f xs) = Inr ys \<Longrightarrow> x \<in> set xs \<Longrightarrow> \<exists>zs. f x = Inr zs"
proof (induction xs arbitrary: ys)
  case Nil
  then show ?case by simp
next
  case (Cons a xs)
  then show ?case by (cases "f a") (auto split: sum.splits)
qed

lemma collect_results_concat:
  "collect_results (map f xs) = Inr ys \<Longrightarrow> set (concat ys) = (\<Union>x \<in> set xs. result_set (f x))"
proof (induction xs arbitrary: ys)
  case Nil
  then show ?case by auto
next
  case (Cons x xs)
  show ?case
  proof (cases "f x")
    case (Inl err)
    with Cons.prems show ?thesis by simp
  next
    case (Inr zs)
    with Cons.prems obtain ys' where ys': "collect_results (map f xs) = Inr ys'" "ys = zs # ys'"
      by (auto split: sum.splits)
    from Cons.IH [OF ys'(1)] Inr ys'(2) show ?thesis by simp
  qed
qed

lemma simple_method_operation_set:
  "simple_method_operation pathStr pathItem method = Inr zs \<Longrightarrow>
     result_set (simple_method_operation pathStr pathItem method) = simple_hits pathStr pathItem method"
  by (auto simp: simple_method_operation_def simple_hits_def split: if_splits sum.splits bool.splits)

lemma simple_path_operations_set:
  assumes "simple_path_operations (pathStr, pathItem) = Inr zs"
  shows "set zs = (if truthy pathItem \<and> \<not> is_string pathItem
                   then \<Union>method \<in> set simple_methods. simple_hits pathStr pathItem method else {})"
proof (cases "\<not> truthy pathItem \<or> is_string pathItem")
  case True
  with assms show ?thesis by (auto simp: simple_path_operations_def)
next
  case False
  with assms obtain opss where
    c: "collect_results (map (simple_method_operation pathStr pathItem) simple_methods) = Inr opss"
    and zs: "zs = concat opss"
    by (auto simp: simple_path_operations_def split: sum.splits)
  have "\<And>m. m \<in> set simple_methods \<Longrightarrow>
          result_set (simple_method_operation pathStr pathItem m) = simple_hits pathStr pathItem m"
    using collect_results_ok [OF c] simple_method_operation_set by blast
  then show ?thesis
    unfolding zs collect_results_concat [OF c] using False by simp
qed

lemma simple_operations_set:
  assumes "simple_operations spec = Inr ops"
  shows "set ops =
           (if truthy (get spec ''paths'')
            then \<Union>entry \<in> set (entries (get spec ''paths'')).
                   (if truthy (snd entry) \<and> \<not> is_string (snd entry)
                    then \<Union>method \<in> set simple_methods. simple_hits (fst entry) (snd entry) method
                    else {})
            else {})"
proof (cases "truthy (get spec ''paths'')")
  case False
  with assms show ?thesis by (simp add: simple_operations_def)
next
  case True
  with assms obtain opss where
    c: "collect_results (map simple_path_operations (entries (get spec ''paths''))) = Inr opss"
    and ops: "ops = concat opss"
    by (auto simp: simple_operations_def split: sum.splits)
  have "\<And>entry. entry \<in> set (entries (get spec ''paths'')) \<Longrightarrow>
          result_set (simple_path_operations entry) =
            (if truthy (snd entry) \<and> \<not> is_string (snd entry)
             then \<Union>method \<in> set simple_methods. simple_hits (fst entry) (snd entry) method
             else {})"
  proof -
    fix entry assume "entry \<in> set (entries (get spec ''paths''))"
    then obtain zs where z: "simple_path_operations entry = Inr zs"
      using collect_results_ok [OF c] by blast
    then have "simple_path_operations (fst entry, snd entry) = Inr zs" by simp
    from simple_path_operations_set [OF this] z
    show "result_set (simple_path_operations entry) =
            (if truthy (snd entry) \<and> \<not> is_string (snd entry)
             then \<Union>method \<in> set simple_methods. simple_hits (fst entry) (snd entry) method
             else {})" by simp
  qed
  then show ?thesis
    unfolding ops collect_results_concat [OF c] using True by simp
qed

lemma first_valid_spec_operations:
  "first_valid_spec e basePath serviceName language version files = Some r \<Longrightarrow>
     simple_operations (simple_document r) = Inr (simple_operations_of r)"
proof (induction files)
  case Nil
  then show ?case by simp
next
  case (Cons f files)
  obtain fileName content where f: "f = (fileName, content)" by (cases f)
  from Cons show ?case
    unfolding f by (auto split: option.splits if_splits sum.splits)
qed

lemma hyphen_not_underscore: "method @ ''-'' @ pathStr \<noteq> generateOperationId method pathStr"
  by (simp add: generateOperationId_def)

lemma has_operationId_key:
  "has_property ''operationId'' operation = Inr True \<longleftrightarrow>
     (\<exists>fs. operation = JObj fs \<and> ''operationId'' \<in> fst ` set fs)"
  by (cases operation) (auto simp: array_index_def is_digit_def digit_chars_def)

text \<open>
  Claim C10. The simple loader keeps an operation only when the method object on the path
  item has an \<open>operationId\<close> key: the operations of a loaded spec are exactly the
  objects built from the method objects that carry the key, so a method object
  without it is left out and no id is synthesised for it. When the key is there with a
  falsy value the id is the method, a hyphen and the path, which is never the
  underscore form \<open>generateOperationId\<close> gives.
\<close>

theorem simple_loader_drops_operations_without_id_key:
  assumes "loadSimpleApiSpec e basePath listing serviceName language version = Some r"
  shows "set (simple_operations_of r) =
           {simple_operation_object pathStr method (JObj fs) | pathStr pathItem method fs.
              truthy (get (simple_document r) ''paths'')
            \<and> (pathStr, pathItem) \<in> set (entries (get (simple_document r) ''paths''))
            \<and> truthy pathItem \<and> \<not> is_string pathItem
            \<and> method \<in> set simple_methods
            \<and> get pathItem method = JObj fs
            \<and> ''operationId'' \<in> fst ` set fs}
         \<and> (\<forall>pathStr method operation.
               s_operationId (simple_operation_object pathStr method operation) =
                 (if truthy (get operation ''operationId'') then get operation ''operationId''
                  else JStr (method @ ''-'' @ pathStr))
             \<and> method @ ''-'' @ pathStr \<noteq> generateOperationId method pathStr)"
proof
  from assms obtain files where
    "first_valid_spec e basePath serviceName language version files = Some r"
    by (auto simp: loadSimpleApiSpec_def split: option.splits)
  then have "simple_operations (simple_document r) = Inr (simple_operations_of r)"
    by (rule first_valid_spec_operations)
  from simple_operations_set [OF this]
  have eq: "set (simple_operations_of r) =
           (if truthy (get (simple_document r) ''paths'')
            then \<Union>entry \<in> set (entries (get (simple_document r) ''paths'')).
                   (if truthy (snd entry) \<and> \<not> is_string (snd entry)
                    then \<Union>method \<in> set simple_methods. simple_hits (fst entry) (snd entry) method
                    else {})
            else {})" .
  show "set (simple_operations_of r) =
           {simple_operation_object pathStr method (JObj fs) | pathStr pathItem method fs.
              truthy (get (simple_document r) ''paths'')
            \<and> (pathStr, pathItem) \<in> set (entries (get (simple_document r) ''paths''))
            \<and> truthy pathItem \<and> \<not> is_string pathItem
            \<and> method \<in> set simple_methods
            \<and> get pathItem method = JObj fs
            \<and> ''operationId'' \<in> fst ` set fs}" (is "_ = ?C")
  proof (rule set_eqI, rule iffI)
    fix op assume "op \<in> set (simple_operations_of r)"
    with eq obtain entry meth where
      t: "truthy (get (simple_document r) ''paths'')"
      and en: "entry \<in> set (entries (get (simple_document r) ''paths''))"
      and it: "truthy (snd entry)" "\<not> is_string (snd entry)"
      and m: "meth \<in> set simple_methods"
      and h: "op \<in> simple_hits (fst entry) (snd entry) meth"
      by (auto split: if_splits)
    from h obtain fs where
      fs: "get (snd entry) meth = JObj fs" "''operationId'' \<in> fst ` set fs"
      and op: "op = simple_operation_object (fst entry) meth (JObj fs)"
      unfolding simple_hits_def has_operationId_key by auto
    from en have "(fst entry, snd entry) \<in> set (entries (get (simple_document r) ''paths''))"
      by simp
    with t it m fs op show "op \<in> ?C" by blast
  next
    fix op assume "op \<in> ?C"
    then obtain pathStr pathItem meth fs where
      op: "op = simple_operation_object pathStr meth (JObj fs)"
      and t: "truthy (get (simple_document r) ''paths'')"
      and en: "(pathStr, pathItem) \<in> set (entries (get (simple_document r) ''paths''))"
      and it: "truthy pathItem" "\<not> is_string pathItem"
      and m: "meth \<in> set simple_methods"
      and fs: "get pathItem meth = JObj fs" "''operationId'' \<in> fst ` set fs"
      by blast
    have "op \<in> simple_hits pathStr pathItem meth"
      unfolding simple_hits_def has_operationId_key using op fs by simp
    with it m have "op \<in> (if truthy (snd (pathStr, pathItem)) \<and> \<not> is_string (snd (pathStr, pathItem))
                    then \<Union>meth \<in> set simple_methods.
                           simple_hits (fst (pathStr, pathItem)) (snd (pathStr, pathItem)) meth
                    else {})" by auto
    with en t show "op \<in> set (simple_operations_of r)"
      unfolding eq by (simp only: if_True) (rule UN_I)
  qed
next
  show "\<forall>pathStr method operation.
               s_operationId (simple_operation_object pathStr method operation) =
                 (if truthy (get operation ''operationId'') then get operation ''operationId''
                  else JStr (method @ ''-'' @ pathStr))
             \<and> method @ ''-'' @ pathStr \<noteq> generateOperationId method pathStr"
    using hyphen_not_underscore by (simp add: simple_operation_object_def)
qed

lemma pets_loaded:
  "loadSimpleApiSpec pets_env ''docs/en/apispecs/pets/v3''
      (Some [(''pets.yaml'', Some ''pets''), (''notes.txt'', None)]) ''pets'' ''en'' ''v3'' =
     Some pets_spec"
  by (simp add: loadSimpleApiSpec_def endsWith_def pets_env_def sample_env_def pets_doc_def
      pets_spec_def simple_operations_def simple_path_operations_def simple_methods_def
      simple_method_operation_def simple_operation_object_def toUpperCase_def to_upper_char_def
      lower_chars_def upper_chars_def)

theorem simple_loader_drops_operations_without_id_key_witness:
  "loadSimpleApiSpec pets_env ''docs/en/apispecs/pets/v3''
      (Some [(''pets.yaml'', Some ''pets''), (''notes.txt'', None)]) ''pets'' ''en'' ''v3'' =
     Some pets_spec
   \<and> map s_operationId (simple_operations_of pets_spec) = [JStr ''get-/pets'', JStr ''updatePet'']
   \<and> set (simple_operations_of pets_spec) =
           {simple_operation_object pathStr method (JObj fs) | pathStr pathItem method fs.
              truthy (get (simple_document pets_spec) ''paths'')
            \<and> (pathStr, pathItem) \<in> set (entries (get (simple_document pets_spec) ''paths''))
            \<and> truthy pathItem \<and> \<not> is_string pathItem
            \<and> method \<in> set simple_methods
            \<and> get pathItem method = JObj fs
            \<and> ''operationId'' \<in> fst ` set fs}"
proof -
  have ids: "map s_operationId (simple_operations_of pets_spec) = [JStr ''get-/pets'', JStr ''updatePet'']"
    by (simp add: pets_spec_def)
  from simple_loader_drops_operations_without_id_key [OF pets_loaded] pets_loaded ids
  show ?thesis by blast
qed

end
